theory Spec2Isabelle
  imports Main
begin

section \<open>The data of \<open>update_auth_providers.py\<close>\<close>

text \<open>
  A row of the \<open>SocialApp\<close> table, with the columns the command names: the primary key,
  the four attributes it writes, and the many-to-many relation \<open>sites\<close>, kept with the
  row as the list of the primary keys of the related \<open>Site\<close> rows.
\<close>

record socialapp =
  pk :: nat
  name :: string
  provider :: string
  client_id :: string
  secret :: string
  sites :: "nat list"

text \<open>
  The attributes of \<open>django.conf.settings\<close> that \<open>handle\<close> reads. A credential is
  \<open>None\<close> or a string.
\<close>

record settings =
  FXA_CLIENT_ID :: "string option"
  FXA_SECRET_KEY :: "string option"
  GITHUB_CLIENT_ID :: "string option"
  GITHUB_SECRET_KEY :: "string option"
  GITLAB_CLIENT_ID :: "string option"
  GITLAB_SECRET_KEY :: "string option"
  GOOGLE_CLIENT_ID :: "string option"
  GOOGLE_SECRET_KEY :: "string option"
  KEYCLOAK_CLIENT_ID :: "string option"
  KEYCLOAK_CLIENT_SECRET :: "string option"
  DISCORD_CLIENT_ID :: "string option"
  DISCORD_SECRET_KEY :: "string option"
  SITE_ID :: nat

text \<open>
  The six module constants \<open>FXA_PROVIDER_ID\<close> ... \<open>DISCORD_PROVIDER_ID\<close>. Their values
  are the \<open>id\<close> attributes of provider classes of the allauth library, so they are
  parameters of the model.
\<close>

record provider_ids =
  FXA_PROVIDER_ID :: string
  GITHUB_PROVIDER_ID :: string
  GITLAB_PROVIDER_ID :: string
  GOOGLE_PROVIDER_ID :: string
  KEYCLOAK_PROVIDER_ID :: string
  DISCORD_PROVIDER_ID :: string

text \<open>The dictionary \<open>data\<close> that \<open>handle\<close> builds with \<open>dict(name=..., ...)\<close>.\<close>

record app_data =
  data_name :: string
  data_provider :: string
  data_client_id :: string
  data_secret :: string

text \<open>
  What the command reads and writes: the \<open>SocialApp\<close> table, the primary keys of the
  \<open>Site\<close> table, and the lines written to \<open>self.stdout\<close>.
\<close>

record world =
  apps :: "socialapp list"
  site_table :: "nat list"
  stdout :: "string list"

datatype error =
  SocialAppDoesNotExist
  | SocialAppMultipleObjectsReturned
  | SiteDoesNotExist

text \<open>
  A call returns, or raises with the effects it had until then: the command runs
  without a transaction, so the rows saved and the lines written before an exception stay.
\<close>

datatype outcome = Done world | Raised error world

fun world_of :: "outcome \<Rightarrow> world" where
  "world_of (Done w) = w"
| "world_of (Raised e w) = w"

fun then_do :: "outcome \<Rightarrow> (world \<Rightarrow> outcome) \<Rightarrow> outcome" where
  "then_do (Done w) f = f w"
| "then_do (Raised e w) f = Raised e w"

section \<open>The database operations\<close>

text \<open>\<open>SocialApp.objects.get(provider=p)\<close>: the one row, or one of two exceptions.\<close>

definition objects_get :: "string \<Rightarrow> socialapp list \<Rightarrow> error + socialapp" where
  "objects_get p rows =
     (case filter (\<lambda>r. provider r = p) rows of
        [] \<Rightarrow> Inl SocialAppDoesNotExist
      | [a] \<Rightarrow> Inr a
      | _ # _ # _ \<Rightarrow> Inl SocialAppMultipleObjectsReturned)"

text \<open>\<open>app.save()\<close> of an object that has a primary key: the row of that key is rewritten.\<close>

definition save_existing :: "socialapp \<Rightarrow> socialapp list \<Rightarrow> socialapp list" where
  "save_existing app rows = map (\<lambda>r. if pk r = pk app then app else r) rows"

text \<open>
  \<open>app.save()\<close> of a new object: the database gives it a primary key that no row has,
  here the successor of the largest one (1 in an empty table).
\<close>

definition fresh_pk :: "socialapp list \<Rightarrow> nat" where
  "fresh_pk rows = Suc (foldr max (map pk rows) 0)"

definition save_new :: "app_data \<Rightarrow> socialapp list \<Rightarrow> socialapp" where
  "save_new data rows =
     \<lparr>pk = fresh_pk rows, name = data_name data, provider = data_provider data,
      client_id = data_client_id data, secret = data_secret data, sites = []\<rparr>"

text \<open>\<open>app.sites.add(site)\<close>: the relation of the row of \<open>app\<close> gains the site.\<close>

definition sites_add :: "nat \<Rightarrow> nat \<Rightarrow> socialapp list \<Rightarrow> socialapp list" where
  "sites_add app_pk site rows =
     map (\<lambda>r. if pk r = app_pk then r\<lparr>sites := List.insert site (sites r)\<rparr> else r) rows"

text \<open>\<open>Site.objects.get(pk=settings.SITE_ID)\<close>.\<close>

definition site_get :: "nat \<Rightarrow> nat list \<Rightarrow> error + nat" where
  "site_get site_id tbl = (if site_id \<in> set tbl then Inr site_id else Inl SiteDoesNotExist)"

section \<open>The report lines\<close>

definition digit_char :: "nat \<Rightarrow> char" where
  "digit_char d = ''0123456789'' ! d"

fun show_nat :: "nat \<Rightarrow> string" where
  "show_nat n =
     (if n < 10 then [digit_char n] else show_nat (n div 10) @ [digit_char (n mod 10)])"

declare show_nat.simps [simp del]

definition updated_line :: "nat \<Rightarrow> string" where
  "updated_line k = ''Updated existing authentication provider (pk='' @ show_nat k @ '')''"

definition created_line :: "nat \<Rightarrow> string" where
  "created_line k = ''Created new authentication provider (pk='' @ show_nat k @ '')''"

definition stdout_write :: "string \<Rightarrow> world \<Rightarrow> world" where
  "stdout_write line w = w\<lparr>stdout := stdout w @ [line]\<rparr>"

section \<open>\<open>Command.update_provider\<close>\<close>

text \<open>
  The \<open>try\<close> statement: the row is looked up by \<open>data["provider"]\<close>; when it is found,
  the four items of \<open>data\<close> are set on it (the \<open>setattr\<close> loop, \<open>setattr_items\<close>), it
  is saved and the line is written; when
  \<open>get\<close> raises \<open>ObjectDoesNotExist\<close>, a new row is built from \<open>data\<close>, saved and the line
  is written. The other exception of \<open>get\<close> is not caught. The result is \<open>app\<close> and the
  world after the write.
\<close>

definition setattr_items :: "app_data \<Rightarrow> socialapp \<Rightarrow> socialapp" where
  "setattr_items data app =
     app\<lparr>name := data_name data, provider := data_provider data,
         client_id := data_client_id data, secret := data_secret data\<rparr>"

definition upsert :: "app_data \<Rightarrow> world \<Rightarrow> error + (socialapp \<times> world)" where
  "upsert data w =
     (case objects_get (data_provider data) (apps w) of
        Inr found \<Rightarrow>
          (let app = setattr_items data found
           in Inr (app, stdout_write (updated_line (pk app))
                          (w\<lparr>apps := save_existing app (apps w)\<rparr>)))
      | Inl SocialAppDoesNotExist \<Rightarrow>
          (let app = save_new data (apps w)
           in Inr (app, stdout_write (created_line (pk app)) (w\<lparr>apps := apps w @ [app]\<rparr>)))
      | Inl e \<Rightarrow> Inl e)"

text \<open>
  The statements after the \<open>try\<close>: when the relation of \<open>app\<close> is empty, the default site
  is fetched (which may raise) and added.
\<close>

definition ensure_site :: "nat \<Rightarrow> socialapp \<Rightarrow> world \<Rightarrow> outcome" where
  "ensure_site site_id app w =
     (let sites_count = length (sites app) in
      if sites_count = 0 then
        (case site_get site_id (site_table w) of
           Inl e \<Rightarrow> Raised e w
         | Inr default_site \<Rightarrow> Done (w\<lparr>apps := sites_add (pk app) default_site (apps w)\<rparr>))
      else Done w)"

definition update_provider :: "app_data \<Rightarrow> nat \<Rightarrow> world \<Rightarrow> outcome" where
  "update_provider data site_id w =
     (case upsert data w of
        Inl e \<Rightarrow> Raised e w
      | Inr (app, w') \<Rightarrow> ensure_site site_id app w')"

section \<open>\<open>Command.handle\<close>\<close>

text \<open>
  One of the six \<open>if\<close> statements of \<open>handle\<close>: when both settings are not \<open>None\<close>, the
  dictionary is built and \<open>update_provider\<close> is called.
\<close>

definition sync_block ::
  "string \<Rightarrow> string \<Rightarrow> string option \<Rightarrow> string option \<Rightarrow> nat \<Rightarrow> world \<Rightarrow> outcome" where
  "sync_block nm p cid sec site_id w =
     (if cid \<noteq> None \<and> sec \<noteq> None then
        update_provider
          \<lparr>data_name = nm, data_provider = p, data_client_id = the cid,
           data_secret = the sec\<rparr> site_id w
      else Done w)"

definition handle :: "provider_ids \<Rightarrow> settings \<Rightarrow> world \<Rightarrow> outcome" where
  "handle ids st w0 =
     then_do (sync_block ''FxA'' (FXA_PROVIDER_ID ids)
                (FXA_CLIENT_ID st) (FXA_SECRET_KEY st) (SITE_ID st) w0) (\<lambda>w1.
     then_do (sync_block ''GitHub'' (GITHUB_PROVIDER_ID ids)
                (GITHUB_CLIENT_ID st) (GITHUB_SECRET_KEY st) (SITE_ID st) w1) (\<lambda>w2.
     then_do (sync_block ''GitLab'' (GITLAB_PROVIDER_ID ids)
                (GITLAB_CLIENT_ID st) (GITLAB_SECRET_KEY st) (SITE_ID st) w2) (\<lambda>w3.
     then_do (sync_block ''Google'' (GOOGLE_PROVIDER_ID ids)
                (GOOGLE_CLIENT_ID st) (GOOGLE_SECRET_KEY st) (SITE_ID st) w3) (\<lambda>w4.
     then_do (sync_block ''Keycloak'' (KEYCLOAK_PROVIDER_ID ids)
                (KEYCLOAK_CLIENT_ID st) (KEYCLOAK_CLIENT_SECRET st) (SITE_ID st) w4) (\<lambda>w5.
     sync_block ''Discord'' (DISCORD_PROVIDER_ID ids)
                (DISCORD_CLIENT_ID st) (DISCORD_SECRET_KEY st) (SITE_ID st) w5)))))"

section \<open>The run as a sequence of blocks\<close>

text \<open>
  The six \<open>if\<close> statements of \<open>handle\<close> differ in their display name, provider id and
  pair of settings only. \<open>provider_blocks\<close> lists these in the order of the source, and
  \<open>run_blocks\<close> runs such a list, stopping at the first exception; \<open>handle\<close> is shown
  below to be \<open>run_blocks\<close> on \<open>provider_blocks\<close>.
\<close>

type_synonym block = "string \<times> string \<times> string option \<times> string option"

definition provider_blocks :: "provider_ids \<Rightarrow> settings \<Rightarrow> block list" where
  "provider_blocks ids st =
     [(''FxA'', FXA_PROVIDER_ID ids, FXA_CLIENT_ID st, FXA_SECRET_KEY st),
      (''GitHub'', GITHUB_PROVIDER_ID ids, GITHUB_CLIENT_ID st, GITHUB_SECRET_KEY st),
      (''GitLab'', GITLAB_PROVIDER_ID ids, GITLAB_CLIENT_ID st, GITLAB_SECRET_KEY st),
      (''Google'', GOOGLE_PROVIDER_ID ids, GOOGLE_CLIENT_ID st, GOOGLE_SECRET_KEY st),
      (''Keycloak'', KEYCLOAK_PROVIDER_ID ids, KEYCLOAK_CLIENT_ID st, KEYCLOAK_CLIENT_SECRET st),
      (''Discord'', DISCORD_PROVIDER_ID ids, DISCORD_CLIENT_ID st, DISCORD_SECRET_KEY st)]"

fun run_blocks :: "block list \<Rightarrow> nat \<Rightarrow> world \<Rightarrow> outcome" where
  "run_blocks [] site_id w = Done w"
| "run_blocks ((nm, p, cid, sec) # bs) site_id w =
     then_do (sync_block nm p cid sec site_id w) (run_blocks bs site_id)"

fun block_key :: "block \<Rightarrow> string" where
  "block_key (nm, p, cid, sec) = p"

fun configured :: "block \<Rightarrow> bool" where
  "configured (nm, p, cid, sec) = (cid \<noteq> None \<and> sec \<noteq> None)"

text \<open>The rows of a provider key, as \<open>objects_get\<close> selects them.\<close>

definition rows_of :: "string \<Rightarrow> socialapp list \<Rightarrow> socialapp list" where
  "rows_of p rows = filter (\<lambda>r. provider r = p) rows"

section \<open>What the database and the library guarantee\<close>

text \<open>\<open>pk\<close> is the primary key of the table: no two rows share it.\<close>

definition pk_unique :: "socialapp list \<Rightarrow> bool" where
  "pk_unique rows = distinct (map pk rows)"

text \<open>The six provider classes have six different ids.\<close>

definition ids_distinct :: "provider_ids \<Rightarrow> bool" where
  "ids_distinct ids =
     distinct [FXA_PROVIDER_ID ids, GITHUB_PROVIDER_ID ids, GITLAB_PROVIDER_ID ids,
               GOOGLE_PROVIDER_ID ids, KEYCLOAK_PROVIDER_ID ids, DISCORD_PROVIDER_ID ids]"

section \<open>Relations between the table before and after\<close>

text \<open>
  \<open>same_key\<close>: a row is still the row of its primary key and provider key.
  \<open>sites_kept\<close>: the related sites of a row are as before, or were empty and are now
  empty still or the default site alone. \<open>rows_kept\<close>: every row of the first table is,
  at its place in the second, related so; the second table may have more rows.
\<close>

definition same_key :: "socialapp \<Rightarrow> socialapp \<Rightarrow> bool" where
  "same_key a a' = (pk a' = pk a \<and> provider a' = provider a)"

definition sites_kept :: "nat \<Rightarrow> socialapp \<Rightarrow> socialapp \<Rightarrow> bool" where
  "sites_kept site_id a a' =
     (pk a' = pk a \<and>
      (if sites a = [] then sites a' = [] \<or> sites a' = [site_id] else sites a' = sites a))"

definition row_kept :: "nat \<Rightarrow> socialapp \<Rightarrow> socialapp \<Rightarrow> bool" where
  "row_kept site_id a a' = (same_key a a' \<and> sites_kept site_id a a')"

definition rows_kept :: "nat \<Rightarrow> socialapp list \<Rightarrow> socialapp list \<Rightarrow> bool" where
  "rows_kept site_id rows rows' =
     (length rows \<le> length rows' \<and> list_all2 (row_kept site_id) rows (take (length rows) rows'))"

section \<open>Conditions on the table, and the line of a block\<close>

text \<open>
  \<open>has_site\<close>: the provider key has one row, and it is related to a site.
  \<open>lacks_site\<close>: the provider key has no row, or one row that is related to no site, so
  that after the \<open>try\<close> statement \<open>app.sites.count()\<close> is 0.
  \<open>all_attached\<close>: every block whose settings are both set has a site.
  \<open>one_row_at_most\<close>: no provider key of the blocks has two rows.
\<close>

definition has_site :: "string \<Rightarrow> socialapp list \<Rightarrow> bool" where
  "has_site p rows = (case rows_of p rows of [a] \<Rightarrow> sites a \<noteq> [] | _ \<Rightarrow> False)"

definition lacks_site :: "string \<Rightarrow> socialapp list \<Rightarrow> bool" where
  "lacks_site p rows = (case rows_of p rows of [] \<Rightarrow> True | [a] \<Rightarrow> sites a = [] | _ \<Rightarrow> False)"

definition all_attached :: "block list \<Rightarrow> socialapp list \<Rightarrow> bool" where
  "all_attached bs rows = list_all (\<lambda>b. configured b \<longrightarrow> has_site (block_key b) rows) bs"

definition one_row_at_most :: "block list \<Rightarrow> socialapp list \<Rightarrow> bool" where
  "one_row_at_most bs rows = list_all (\<lambda>b. length (rows_of (block_key b) rows) \<le> 1) bs"

text \<open>
  The line that a run from the table \<open>rows\<close> to the table \<open>rows'\<close> writes for a block:
  the primary key is that of the record of the provider key in \<open>rows'\<close>, and the wording
  says whether \<open>rows\<close> had a row of the key.
\<close>

fun report_line :: "socialapp list \<Rightarrow> socialapp list \<Rightarrow> block \<Rightarrow> string" where
  "report_line rows rows' (nm, p, cid, sec) =
     (case rows_of p rows' of
        [a] \<Rightarrow> if rows_of p rows = [] then created_line (pk a) else updated_line (pk a)
      | _ \<Rightarrow> [])"

text \<open>
  \<open>sites_grown_by\<close>: what a run may do to the relations of the table, given the default
  site and the \<open>Site\<close> table. A row that was there keeps its primary key, and keeps its
  sites or, when it had none, has gained the default site alone, which then is a site of
  the \<open>Site\<close> table; a row that is new has no site, or the default site alone, which then
  is a site of the \<open>Site\<close> table.
  \<open>expected_sites\<close>: the sites of the record of a provider after a call that completes:
  those of its one row when it had some, else the default site alone.
\<close>

definition old_row_sites :: "nat \<Rightarrow> nat list \<Rightarrow> socialapp \<Rightarrow> socialapp \<Rightarrow> bool" where
  "old_row_sites site_id tbl a a' =
     (pk a' = pk a \<and>
      (sites a' = sites a \<or> (sites a = [] \<and> sites a' = [site_id] \<and> site_id \<in> set tbl)))"

definition new_row_sites :: "nat \<Rightarrow> nat list \<Rightarrow> socialapp \<Rightarrow> bool" where
  "new_row_sites site_id tbl a =
     (sites a = [] \<or> (sites a = [site_id] \<and> site_id \<in> set tbl))"

definition sites_grown_by ::
  "nat \<Rightarrow> nat list \<Rightarrow> socialapp list \<Rightarrow> socialapp list \<Rightarrow> bool" where
  "sites_grown_by site_id tbl rows rows' =
     (length rows \<le> length rows'
      \<and> list_all2 (old_row_sites site_id tbl) rows (take (length rows) rows')
      \<and> list_all (new_row_sites site_id tbl) (drop (length rows) rows'))"

definition expected_sites :: "nat \<Rightarrow> socialapp list \<Rightarrow> string \<Rightarrow> nat list" where
  "expected_sites site_id rows p =
     (case rows_of p rows of
        [f] \<Rightarrow> if sites f = [] then [site_id] else sites f
      | _ \<Rightarrow> [site_id])"

section \<open>Example inputs\<close>

text \<open>The ids that the provider classes of allauth carry.\<close>

definition ex_ids :: provider_ids where
  "ex_ids = \<lparr>FXA_PROVIDER_ID = ''fxa'', GITHUB_PROVIDER_ID = ''github'',
     GITLAB_PROVIDER_ID = ''gitlab'', GOOGLE_PROVIDER_ID = ''google'',
     KEYCLOAK_PROVIDER_ID = ''keycloak'', DISCORD_PROVIDER_ID = ''discord''\<rparr>"

text \<open>No credential is set; the default site is 1.\<close>

definition no_settings :: settings where
  "no_settings = \<lparr>FXA_CLIENT_ID = None, FXA_SECRET_KEY = None,
     GITHUB_CLIENT_ID = None, GITHUB_SECRET_KEY = None,
     GITLAB_CLIENT_ID = None, GITLAB_SECRET_KEY = None,
     GOOGLE_CLIENT_ID = None, GOOGLE_SECRET_KEY = None,
     KEYCLOAK_CLIENT_ID = None, KEYCLOAK_CLIENT_SECRET = None,
     DISCORD_CLIENT_ID = None, DISCORD_SECRET_KEY = None, SITE_ID = 1\<rparr>"

text \<open>Only the GitHub pair is set.\<close>

definition github_settings :: settings where
  "github_settings =
     no_settings\<lparr>GITHUB_CLIENT_ID := Some ''abc'', GITHUB_SECRET_KEY := Some ''def''\<rparr>"

text \<open>A table with one GitLab row, attached to site 7, and the site table with site 1.\<close>

definition gitlab_row :: socialapp where
  "gitlab_row = \<lparr>pk = 4, name = ''GitLab'', provider = ''gitlab'', client_id = ''old'',
     secret = ''older'', sites = [7]\<rparr>"

definition gitlab_world :: world where
  "gitlab_world = \<lparr>apps = [gitlab_row], site_table = [1], stdout = []\<rparr>"

text \<open>Only the GitLab pair is set.\<close>

definition gitlab_settings :: settings where
  "gitlab_settings =
     no_settings\<lparr>GITLAB_CLIENT_ID := Some ''new'', GITLAB_SECRET_KEY := Some ''newer''\<rparr>"

text \<open>An empty table, with and without the default site.\<close>

definition empty_world :: world where
  "empty_world = \<lparr>apps = [], site_table = [1], stdout = []\<rparr>"

definition no_site_world :: world where
  "no_site_world = \<lparr>apps = [], site_table = [], stdout = []\<rparr>"

text \<open>The FxA and GitHub pairs are set.\<close>

definition fxa_github_settings :: settings where
  "fxa_github_settings =
     github_settings\<lparr>FXA_CLIENT_ID := Some ''f1'', FXA_SECRET_KEY := Some ''f2''\<rparr>"

text \<open>The GitHub client id is the empty string.\<close>

definition blank_settings :: settings where
  "blank_settings =
     no_settings\<lparr>GITHUB_CLIENT_ID := Some [], GITHUB_SECRET_KEY := Some ''def''\<rparr>"

text \<open>The GitLab row is attached to a site, and the site table is empty.\<close>

definition attached_world :: world where
  "attached_world = \<lparr>apps = [gitlab_row], site_table = [], stdout = []\<rparr>"

text \<open>A table in which two rows carry the GitHub provider key.\<close>

definition dup_world :: world where
  "dup_world =
     \<lparr>apps = [\<lparr>pk = 1, name = ''GitHub'', provider = ''github'', client_id = ''a'',
                secret = ''b'', sites = [1]\<rparr>,
              \<lparr>pk = 2, name = ''GitHub (old)'', provider = ''github'', client_id = ''c'',
                secret = ''d'', sites = [1]\<rparr>],
      site_table = [1], stdout = []\<rparr>"

text \<open>A table with one Discord row; the GitHub and Discord pairs are set.\<close>

definition discord_row :: socialapp where
  "discord_row = \<lparr>pk = 1, name = ''Discord'', provider = ''discord'', client_id = ''x'',
     secret = ''y'', sites = [1]\<rparr>"

definition discord_world :: world where
  "discord_world = \<lparr>apps = [discord_row], site_table = [1], stdout = []\<rparr>"

definition github_discord_settings :: settings where
  "github_discord_settings =
     github_settings\<lparr>DISCORD_CLIENT_ID := Some ''x2'', DISCORD_SECRET_KEY := Some ''y2''\<rparr>"

text \<open>
  A table with a GitLab row that has a site and a Discord row that has none; both sites
  are in the \<open>Site\<close> table. The GitHub, GitLab and Discord pairs are set.
\<close>

definition mixed_world :: world where
  "mixed_world =
     \<lparr>apps = [\<lparr>pk = 4, name = ''GitLab'', provider = ''gitlab'', client_id = ''old'',
                secret = ''older'', sites = [7]\<rparr>,
              \<lparr>pk = 5, name = ''Discord'', provider = ''discord'', client_id = ''x'',
                secret = ''y'', sites = []\<rparr>],
      site_table = [1, 7], stdout = []\<rparr>"

definition mixed_settings :: settings where
  "mixed_settings =
     github_discord_settings\<lparr>GITLAB_CLIENT_ID := Some ''new'',
                             GITLAB_SECRET_KEY := Some ''newer''\<rparr>"

section \<open>Lemmas on the operations\<close>

lemma then_do_Done: "then_do r Done = r"
  by (cases r) simp_all

lemma then_do_eta: "then_do r (\<lambda>w. f w) = then_do r f"
  by simp

lemma then_do_cong [cong]:
  "r = r' \<Longrightarrow> (\<And>w. f w = g w) \<Longrightarrow> then_do r f = then_do r' g"
  by (cases r') simp_all

lemma handle_run_blocks:
  "handle ids st w = run_blocks (provider_blocks ids st) (SITE_ID st) w"
  by (simp add: handle_def provider_blocks_def then_do_Done)

lemma fresh_pk_gt: "r \<in> set rows \<Longrightarrow> pk r < fresh_pk rows"
  unfolding fresh_pk_def by (induction rows) (auto simp: less_Suc_eq_le max_def)

lemma save_existing_split:
  assumes "pk_unique (xs @ found # ys)" and "pk app = pk found"
  shows "save_existing app (xs @ found # ys) = xs @ app # ys"
  using assms unfolding save_existing_def pk_unique_def
  by (auto intro!: map_idI simp: image_iff)

lemma sites_add_split:
  assumes "pk_unique (xs @ app # ys)"
  shows "sites_add (pk app) s (xs @ app # ys) = xs @ app\<lparr>sites := List.insert s (sites app)\<rparr> # ys"
  using assms unfolding sites_add_def pk_unique_def
  by (auto intro!: map_idI simp: image_iff)

lemma rows_of_cases:
  obtains (none) "rows_of p rows = []" "\<forall>r\<in>set rows. provider r \<noteq> p"
  | (one) xs found ys where "rows = xs @ found # ys" "provider found = p"
      "\<forall>r\<in>set xs. provider r \<noteq> p" "\<forall>r\<in>set ys. provider r \<noteq> p" "rows_of p rows = [found]"
  | (many) a b cs where "rows_of p rows = a # b # cs"
proof (cases "rows_of p rows")
  case Nil
  then show ?thesis using none by (auto simp: rows_of_def filter_empty_conv)
next
  case (Cons a as)
  show ?thesis
  proof (cases as)
    case Nil
    with Cons have "filter (\<lambda>r. provider r = p) rows = [a]" by (simp add: rows_of_def)
    then obtain xs ys where "rows = xs @ a # ys" "\<forall>r\<in>set xs. provider r \<noteq> p" "provider a = p"
       "filter (\<lambda>r. provider r = p) ys = []"
      by (auto simp: filter_eq_Cons_iff)
    then show ?thesis using one[of xs a ys] Cons Nil by (auto simp: filter_empty_conv)
  next
    case (Cons b cs)
    then show ?thesis using many \<open>rows_of p rows = a # as\<close> by simp
  qed
qed

lemma objects_get_rows_of:
  "objects_get p rows =
     (case rows_of p rows of [] \<Rightarrow> Inl SocialAppDoesNotExist | [a] \<Rightarrow> Inr a
      | _ # _ # _ \<Rightarrow> Inl SocialAppMultipleObjectsReturned)"
  by (simp add: objects_get_def rows_of_def)

lemma update_provider_many:
  assumes "rows_of (data_provider d) (apps w) = a # b # cs"
  shows "update_provider d sid w = Raised SocialAppMultipleObjectsReturned w"
  using assms by (simp add: update_provider_def upsert_def objects_get_rows_of)

lemma sites_add_fresh:
  "sites_add (fresh_pk rows) s (rows @ [app\<lparr>pk := fresh_pk rows\<rparr>]) =
     rows @ [app\<lparr>pk := fresh_pk rows, sites := List.insert s (sites app)\<rparr>]"
proof -
  have "map (\<lambda>r. if pk r = fresh_pk rows then r\<lparr>sites := List.insert s (sites r)\<rparr> else r) rows = rows"
    using fresh_pk_gt by (intro map_idI) fastforce
  then show ?thesis by (simp add: sites_add_def)
qed

lemma update_provider_none:
  assumes "rows_of (data_provider d) (apps w) = []"
  shows "update_provider d sid w =
     (if sid \<in> set (site_table w)
      then Done (w\<lparr>apps := apps w @ [(save_new d (apps w))\<lparr>sites := [sid]\<rparr>],
                   stdout := stdout w @ [created_line (fresh_pk (apps w))]\<rparr>)
      else Raised SiteDoesNotExist
             (w\<lparr>apps := apps w @ [save_new d (apps w)],
                stdout := stdout w @ [created_line (fresh_pk (apps w))]\<rparr>))"
proof -
  have "sites_add (fresh_pk (apps w)) sid (apps w @ [save_new d (apps w)]) =
          apps w @ [(save_new d (apps w))\<lparr>sites := [sid]\<rparr>]"
    using sites_add_fresh[of "apps w" sid "save_new d (apps w)"]
    by (simp add: save_new_def)
  then show ?thesis
    using assms
    by (simp add: update_provider_def upsert_def objects_get_rows_of ensure_site_def
        site_get_def stdout_write_def Let_def save_new_def)
qed

lemma update_provider_one:
  assumes "pk_unique (apps w)" and "apps w = xs @ found # ys"
    and "rows_of (data_provider d) (apps w) = [found]"
  shows "update_provider d sid w =
     (if sites found \<noteq> [] then
        Done (w\<lparr>apps := xs @ setattr_items d found # ys,
                stdout := stdout w @ [updated_line (pk found)]\<rparr>)
      else if sid \<in> set (site_table w) then
        Done (w\<lparr>apps := xs @ (setattr_items d found)\<lparr>sites := [sid]\<rparr> # ys,
                stdout := stdout w @ [updated_line (pk found)]\<rparr>)
      else Raised SiteDoesNotExist
             (w\<lparr>apps := xs @ setattr_items d found # ys,
                stdout := stdout w @ [updated_line (pk found)]\<rparr>))"
proof -
  have pk: "pk (setattr_items d found) = pk found" by (simp add: setattr_items_def)
  have u: "pk_unique (xs @ found # ys)" using assms by simp
  have s1: "save_existing (setattr_items d found) (apps w) = xs @ setattr_items d found # ys"
    using save_existing_split[OF u pk] assms(2) by simp
  have u2: "pk_unique (xs @ setattr_items d found # ys)"
    using u by (simp add: pk_unique_def pk)
  have s2: "sites_add (pk found) sid (xs @ setattr_items d found # ys) =
      xs @ (setattr_items d found)\<lparr>sites := List.insert sid (sites found)\<rparr> # ys"
    using sites_add_split[OF u2, of sid] by (simp add: pk setattr_items_def)
  have up: "upsert d w = Inr (setattr_items d found,
      w\<lparr>apps := xs @ setattr_items d found # ys, stdout := stdout w @ [updated_line (pk found)]\<rparr>)"
    using assms(3) s1
    by (simp add: upsert_def objects_get_rows_of Let_def stdout_write_def setattr_items_def)
  show ?thesis
    unfolding update_provider_def up
    by (simp add: ensure_site_def site_get_def Let_def s2 pk) (simp add: setattr_items_def)
qed

lemma row_kept_refl: "row_kept sid a a"
  by (simp add: row_kept_def same_key_def sites_kept_def)

lemma row_kept_trans: "row_kept sid a b \<Longrightarrow> row_kept sid b c \<Longrightarrow> row_kept sid a c"
  by (auto simp: row_kept_def same_key_def sites_kept_def split: if_splits)

lemma rows_kept_nth:
  "rows_kept sid xs ys \<longleftrightarrow>
     length xs \<le> length ys \<and> (\<forall>i<length xs. row_kept sid (xs ! i) (ys ! i))"
  by (auto simp: rows_kept_def list_all2_conv_all_nth)

lemma rows_kept_refl: "rows_kept sid rows rows"
  by (simp add: rows_kept_nth row_kept_refl)

lemma rows_kept_trans:
  assumes "rows_kept sid xs ys" and "rows_kept sid ys zs"
  shows "rows_kept sid xs zs"
  unfolding rows_kept_nth
proof (intro conjI allI impI)
  show "length xs \<le> length zs" using assms by (simp add: rows_kept_nth)
next
  fix i assume i: "i < length xs"
  then have "row_kept sid (xs ! i) (ys ! i)" using assms(1) by (simp add: rows_kept_nth)
  moreover have "row_kept sid (ys ! i) (zs ! i)" using assms i by (simp add: rows_kept_nth)
  ultimately show "row_kept sid (xs ! i) (zs ! i)" by (rule row_kept_trans)
qed

lemma rows_kept_append: "rows_kept sid rows (rows @ new)"
  by (simp add: rows_kept_def list_all2_refl row_kept_refl)

lemma rows_kept_replace:
  assumes "row_kept sid a a'"
  shows "rows_kept sid (xs @ a # ys) (xs @ a' # ys)"
  using assms
  by (simp add: rows_kept_def list_all2_appendI list_all2_refl row_kept_refl)

lemma rows_of_one_provider: "rows_of p rows = [found] \<Longrightarrow> provider found = p"
proof -
  assume "rows_of p rows = [found]"
  then have "found \<in> set (filter (\<lambda>r. provider r = p) rows)" by (simp add: rows_of_def)
  then show ?thesis by simp
qed

lemma update_provider_pk_unique:
  assumes "pk_unique (apps w)"
  shows "pk_unique (apps (world_of (update_provider d sid w)))"
proof (cases rule: rows_of_cases[of "data_provider d" "apps w"])
  case none
  have "fresh_pk (apps w) \<notin> pk ` set (apps w)"
    using fresh_pk_gt by fastforce
  then show ?thesis
    using assms none(1)
    by (simp add: update_provider_none pk_unique_def save_new_def)
next
  case (one xs found ys)
  show ?thesis
    using assms one(1)
    by (simp add: update_provider_one[OF assms one(1) one(5)] pk_unique_def setattr_items_def)
next
  case (many a b cs)
  then show ?thesis using assms by (simp add: update_provider_many)
qed

lemma update_provider_site_table:
  assumes "pk_unique (apps w)"
  shows "site_table (world_of (update_provider d sid w)) = site_table w"
proof (cases rule: rows_of_cases[of "data_provider d" "apps w"])
  case none
  then show ?thesis by (simp add: update_provider_none)
next
  case (one xs found ys)
  show ?thesis by (simp add: update_provider_one[OF assms one(1) one(5)])
next
  case (many a b cs)
  then show ?thesis by (simp add: update_provider_many)
qed

lemma update_provider_rows_kept:
  assumes "pk_unique (apps w)"
  shows "rows_kept sid (apps w) (apps (world_of (update_provider d sid w)))"
proof (cases rule: rows_of_cases[of "data_provider d" "apps w"])
  case none
  then show ?thesis by (simp add: update_provider_none rows_kept_append)
next
  case (one xs found ys)
  have k1: "row_kept sid found (setattr_items d found)"
    using one(2) by (simp add: row_kept_def same_key_def sites_kept_def setattr_items_def)
  have k2: "sites found = [] \<Longrightarrow> row_kept sid found ((setattr_items d found)\<lparr>sites := [sid]\<rparr>)"
    using one(2) by (simp add: row_kept_def same_key_def sites_kept_def setattr_items_def)
  show ?thesis
    using k1 k2 one(1)
    by (simp add: update_provider_one[OF assms one(1) one(5)] rows_kept_replace)
next
  case (many a b cs)
  then show ?thesis by (simp add: update_provider_many rows_kept_refl)
qed

lemma update_provider_frame:
  assumes "pk_unique (apps w)" and "q \<noteq> data_provider d"
  shows "rows_of q (apps (world_of (update_provider d sid w))) = rows_of q (apps w)"
proof (cases rule: rows_of_cases[of "data_provider d" "apps w"])
  case none
  then show ?thesis using assms(2) by (simp add: update_provider_none rows_of_def save_new_def)
next
  case (one xs found ys)
  show ?thesis
    using assms(2) one(1,2)
    by (simp add: update_provider_one[OF assms(1) one(1) one(5)] rows_of_def setattr_items_def)
next
  case (many a b cs)
  then show ?thesis by (simp add: update_provider_many)
qed

lemma update_provider_record:
  assumes "pk_unique (apps w)" and "rows_of (data_provider d) (apps w) = [] \<or> (\<exists>f. rows_of (data_provider d) (apps w) = [f])"
  shows "\<exists>a. rows_of (data_provider d) (apps (world_of (update_provider d sid w))) = [a]
     \<and> name a = data_name d \<and> client_id a = data_client_id d \<and> secret a = data_secret d
     \<and> (\<forall>w'. update_provider d sid w = Done w' \<longrightarrow> sites a \<noteq> [])
     \<and> stdout (world_of (update_provider d sid w)) = stdout w @
          [if rows_of (data_provider d) (apps w) = [] then created_line (pk a) else updated_line (pk a)]"
proof (cases rule: rows_of_cases[of "data_provider d" "apps w"])
  case none
  then have f: "filter (\<lambda>r. provider r = data_provider d) (apps w) = []"
    by (simp add: rows_of_def)
  show ?thesis
    using none(1) f
    by (simp add: update_provider_none rows_of_def save_new_def)
next
  case (one xs found ys)
  have f: "filter (\<lambda>r. provider r = data_provider d) xs = []"
     "filter (\<lambda>r. provider r = data_provider d) ys = []"
    using one(3,4) by (simp_all add: filter_empty_conv)
  show ?thesis
    using one(1,5) f
    by (simp add: update_provider_one[OF assms(1) one(1) one(5)] rows_of_def setattr_items_def)
next
  case (many a b cs)
  then show ?thesis using assms(2) by simp
qed

lemma world_of_then_do:
  "world_of (then_do r f) = (case r of Done w \<Rightarrow> world_of (f w) | Raised e w \<Rightarrow> w)"
  by (cases r) simp_all

lemma sync_block_pk_unique:
  "pk_unique (apps w) \<Longrightarrow> pk_unique (apps (world_of (sync_block nm p cid sec sid w)))"
  by (simp add: sync_block_def update_provider_pk_unique)

lemma sync_block_site_table:
  "pk_unique (apps w) \<Longrightarrow> site_table (world_of (sync_block nm p cid sec sid w)) = site_table w"
  by (simp add: sync_block_def update_provider_site_table)

lemma sync_block_rows_kept:
  "pk_unique (apps w) \<Longrightarrow> rows_kept sid (apps w) (apps (world_of (sync_block nm p cid sec sid w)))"
  by (simp add: sync_block_def update_provider_rows_kept rows_kept_refl)

lemma sync_block_frame:
  "pk_unique (apps w) \<Longrightarrow> configured (nm, p, cid, sec) \<longrightarrow> q \<noteq> p \<Longrightarrow>
     rows_of q (apps (world_of (sync_block nm p cid sec sid w))) = rows_of q (apps w)"
  by (simp add: sync_block_def update_provider_frame)

lemma run_blocks_pk_unique:
  "pk_unique (apps w) \<Longrightarrow> pk_unique (apps (world_of (run_blocks bs sid w)))"
proof (induction bs arbitrary: w)
  case Nil
  then show ?case by simp
next
  case (Cons b bs)
  obtain nm p cid sec where b: "b = (nm, p, cid, sec)" by (cases b) auto
  have u: "pk_unique (apps (world_of (sync_block nm p cid sec sid w)))"
    using Cons.prems by (rule sync_block_pk_unique)
  show ?case
  proof (cases "sync_block nm p cid sec sid w")
    case (Done w1)
    with u Cons.IH[of w1] show ?thesis by (simp add: b)
  next
    case (Raised e w1)
    with u show ?thesis by (simp add: b)
  qed
qed

lemma run_blocks_rel:
  assumes refl: "\<And>w. R w w"
    and trans: "\<And>a b c. R a b \<Longrightarrow> R b c \<Longrightarrow> R a c"
    and step: "\<And>nm p cid sec w. (nm, p, cid, sec) \<in> set bs \<Longrightarrow> pk_unique (apps w) \<Longrightarrow>
                 R w (world_of (sync_block nm p cid sec sid w))"
    and u: "pk_unique (apps w)"
  shows "R w (world_of (run_blocks bs sid w))"
  using step u
proof (induction bs arbitrary: w)
  case Nil
  then show ?case by (simp add: refl)
next
  case (Cons b bs)
  obtain nm p cid sec where b: "b = (nm, p, cid, sec)" by (cases b) auto
  have s: "R w (world_of (sync_block nm p cid sec sid w))"
    using Cons.prems by (simp add: b)
  have u1: "pk_unique (apps (world_of (sync_block nm p cid sec sid w)))"
    using Cons.prems(2) by (rule sync_block_pk_unique)
  show ?case
  proof (cases "sync_block nm p cid sec sid w")
    case (Done w1)
    have "R w1 (world_of (run_blocks bs sid w1))"
      using Cons.IH[of w1] Cons.prems(1) u1 Done by simp
    with s Done show ?thesis by (auto simp: b intro: trans)
  next
    case (Raised e w1)
    with s show ?thesis by (simp add: b)
  qed
qed

lemma run_blocks_site_table:
  assumes "pk_unique (apps w)"
  shows "site_table (world_of (run_blocks bs sid w)) = site_table w"
  using run_blocks_rel[where R="\<lambda>a b. site_table b = site_table a", OF _ _ _ assms]
  by (simp add: sync_block_site_table)

lemma run_blocks_rows_kept:
  assumes "pk_unique (apps w)"
  shows "rows_kept sid (apps w) (apps (world_of (run_blocks bs sid w)))"
  by (rule run_blocks_rel[where R="\<lambda>a b. rows_kept sid (apps a) (apps b)", OF _ _ _ assms])
     (auto intro: rows_kept_refl rows_kept_trans sync_block_rows_kept)

lemma run_blocks_frame:
  assumes "pk_unique (apps w)" and "\<forall>b\<in>set bs. configured b \<longrightarrow> block_key b \<noteq> q"
  shows "rows_of q (apps (world_of (run_blocks bs sid w))) = rows_of q (apps w)"
proof (rule run_blocks_rel[where R="\<lambda>a b. rows_of q (apps b) = rows_of q (apps a)", OF _ _ _ assms(1)])
  fix nm p cid sec and w :: world
  assume "(nm, p, cid, sec) \<in> set bs" "pk_unique (apps w)"
  then show "rows_of q (apps (world_of (sync_block nm p cid sec sid w))) = rows_of q (apps w)"
    using assms(2) by (intro sync_block_frame) auto
qed simp_all

lemma provider_blocks_keys:
  "map block_key (provider_blocks ids st) =
     [FXA_PROVIDER_ID ids, GITHUB_PROVIDER_ID ids, GITLAB_PROVIDER_ID ids,
      GOOGLE_PROVIDER_ID ids, KEYCLOAK_PROVIDER_ID ids, DISCORD_PROVIDER_ID ids]"
  by (simp add: provider_blocks_def)

lemma provider_blocks_distinct:
  "ids_distinct ids \<Longrightarrow> distinct (map block_key (provider_blocks ids st))"
  unfolding provider_blocks_keys ids_distinct_def by assumption

lemma distinct_keys_other:
  assumes "distinct (map block_key bs)" and "b \<in> set bs" and "b' \<in> set bs" and "block_key b' = block_key b"
  shows "b' = b"
  using assms by (meson distinct_map inj_onD)

lemma rows_of_not_many:
  assumes "update_provider d sid w = Done w'"
  shows "rows_of (data_provider d) (apps w) = [] \<or> (\<exists>f. rows_of (data_provider d) (apps w) = [f])"
proof (cases rule: rows_of_cases[of "data_provider d" "apps w"])
  case (many a b cs)
  then show ?thesis using assms by (simp add: update_provider_many)
qed simp_all

lemma update_provider_done_record:
  assumes "pk_unique (apps w)" and "update_provider d sid w = Done w'"
  shows "\<exists>a. rows_of (data_provider d) (apps w') = [a]
     \<and> name a = data_name d \<and> client_id a = data_client_id d \<and> secret a = data_secret d
     \<and> sites a \<noteq> []"
  using update_provider_record[OF assms(1) rows_of_not_many[OF assms(2)], of sid] assms(2)
  by auto

lemma run_blocks_Cons_Done:
  assumes "run_blocks ((nm, p, cid, sec) # bs) sid w = Done w'"
  obtains w1 where "sync_block nm p cid sec sid w = Done w1" "run_blocks bs sid w1 = Done w'"
  using assms by (cases "sync_block nm p cid sec sid w") simp_all

lemma run_blocks_done_record:
  assumes "pk_unique (apps w)" and "distinct (map block_key bs)"
    and "run_blocks bs sid w = Done w'" and "(nm, p, Some c, Some s) \<in> set bs"
  shows "\<exists>a. rows_of p (apps w') = [a] \<and> name a = nm \<and> client_id a = c \<and> secret a = s
           \<and> sites a \<noteq> []"
  using assms
proof (induction bs arbitrary: w)
  case Nil
  then show ?case by simp
next
  case (Cons b bs)
  obtain nm0 p0 cid0 sec0 where b: "b = (nm0, p0, cid0, sec0)" by (cases b) auto
  obtain w1 where w1: "sync_block nm0 p0 cid0 sec0 sid w = Done w1" "run_blocks bs sid w1 = Done w'"
    using Cons.prems(3) unfolding b by (rule run_blocks_Cons_Done)
  have u1: "pk_unique (apps w1)"
    using sync_block_pk_unique[OF Cons.prems(1), of nm0 p0 cid0 sec0 sid] w1(1) by simp
  show ?case
  proof (cases "(nm, p, Some c, Some s) = b")
    case True
    then have e: "nm0 = nm" "p0 = p" "cid0 = Some c" "sec0 = Some s" using b by auto
    let ?d = "\<lparr>data_name = nm, data_provider = p, data_client_id = c, data_secret = s\<rparr>"
    have "update_provider ?d sid w = Done w1"
      using w1(1) by (simp add: e sync_block_def)
    from update_provider_done_record[OF Cons.prems(1) this]
    obtain a where a: "rows_of p (apps w1) = [a]" "name a = nm" "client_id a = c" "secret a = s"
      "sites a \<noteq> []" by auto
    have "\<forall>b'\<in>set bs. configured b' \<longrightarrow> block_key b' \<noteq> p"
      using Cons.prems(2) by (auto simp: b e)
    from run_blocks_frame[OF u1 this, of sid] w1(2) a show ?thesis by simp
  next
    case False
    then have "(nm, p, Some c, Some s) \<in> set bs" using Cons.prems(4) by auto
    with Cons.IH[OF u1 _ w1(2)] Cons.prems(2) show ?thesis by simp
  qed
qed

lemma list_all2_take_mono:
  "rows_kept sid xs ys \<Longrightarrow> (\<And>a b. row_kept sid a b \<Longrightarrow> Q a b) \<Longrightarrow>
     list_all2 Q xs (take (length xs) ys)"
  unfolding rows_kept_def by (auto elim: list_all2_mono)

lemma objects_get_Inr:
  "objects_get p rows = Inr found \<Longrightarrow> rows_of p rows = [found]"
  by (auto simp: objects_get_rows_of split: list.splits)

lemma gitlab_update_run:
  "handle ex_ids gitlab_settings gitlab_world =
   Done \<lparr>apps = [\<lparr>pk = 4, name = ''GitLab'', provider = ''gitlab'', client_id = ''new'',
     secret = ''newer'', sites = [7]\<rparr>], site_table = [1],
     stdout = [''Updated existing authentication provider (pk=4)'']\<rparr>"
  by code_simp

lemma ex_ids_distinct: "ids_distinct ex_ids"
  by code_simp

lemma gitlab_world_pk_unique: "pk_unique (apps gitlab_world)"
  by code_simp

lemma github_create_run:
  "handle ex_ids github_settings empty_world =
   Done \<lparr>apps = [\<lparr>pk = 1, name = ''GitHub'', provider = ''github'', client_id = ''abc'',
     secret = ''def'', sites = [1]\<rparr>], site_table = [1],
     stdout = [''Created new authentication provider (pk=1)'']\<rparr>"
  by code_simp

lemma fxa_github_abort_run:
  "handle ex_ids fxa_github_settings no_site_world =
   Raised SiteDoesNotExist
     \<lparr>apps = [\<lparr>pk = 1, name = ''FxA'', provider = ''fxa'', client_id = ''f1'',
        secret = ''f2'', sites = []\<rparr>], site_table = [],
      stdout = [''Created new authentication provider (pk=1)'']\<rparr>"
  by code_simp

lemma blank_run:
  "handle ex_ids blank_settings empty_world =
   Done \<lparr>apps = [\<lparr>pk = 1, name = ''GitHub'', provider = ''github'', client_id = [],
     secret = ''def'', sites = [1]\<rparr>], site_table = [1],
     stdout = [''Created new authentication provider (pk=1)'']\<rparr>"
  by code_simp

lemma empty_world_pk_unique: "pk_unique (apps empty_world)"
  by code_simp

lemma github_block: "(''GitHub'', ''github'', Some ''abc'', Some ''def'') \<in> set (provider_blocks ex_ids github_settings)"
  by code_simp

lemma blank_block: "(''GitHub'', ''github'', Some [], Some ''def'') \<in> set (provider_blocks ex_ids blank_settings)"
  by code_simp

lemma rows_of_at_most_one:
  "length (rows_of p rows) \<le> 1 \<Longrightarrow> rows_of p rows = [] \<or> (\<exists>f. rows_of p rows = [f])"
  by (cases "rows_of p rows") (auto simp: length_Suc_conv)

lemma has_site_cong: "rows_of p rows' = rows_of p rows \<Longrightarrow> has_site p rows' = has_site p rows"
  by (simp add: has_site_def)

lemma lacks_site_cong: "rows_of p rows' = rows_of p rows \<Longrightarrow> lacks_site p rows' = lacks_site p rows"
  by (simp add: lacks_site_def)

lemma has_site_rows:
  assumes "has_site p rows"
  obtains found where "rows_of p rows = [found]" "sites found \<noteq> []"
  using assms unfolding has_site_def by (auto split: list.splits)

lemma update_provider_attached:
  assumes "pk_unique (apps w)" and "has_site (data_provider d) (apps w)"
  shows "\<exists>w'. \<forall>t. update_provider d sid (w\<lparr>site_table := t\<rparr>) = Done (w'\<lparr>site_table := t\<rparr>)"
proof -
  obtain found where f: "rows_of (data_provider d) (apps w) = [found]" "sites found \<noteq> []"
    using assms(2) by (rule has_site_rows)
  obtain xs ys where s: "apps w = xs @ found # ys"
    using f(1) by (cases rule: rows_of_cases[of "data_provider d" "apps w"]) auto
  have "\<forall>t. update_provider d sid (w\<lparr>site_table := t\<rparr>) =
     Done ((w\<lparr>apps := xs @ setattr_items d found # ys,
              stdout := stdout w @ [updated_line (pk found)]\<rparr>)\<lparr>site_table := t\<rparr>)"
  proof
    fix t
    have "pk_unique (apps (w\<lparr>site_table := t\<rparr>))" "apps (w\<lparr>site_table := t\<rparr>) = xs @ found # ys"
      "rows_of (data_provider d) (apps (w\<lparr>site_table := t\<rparr>)) = [found]"
      using assms(1) s f(1) by simp_all
    from update_provider_one[OF this, of sid] f(2)
    show "update_provider d sid (w\<lparr>site_table := t\<rparr>) =
     Done ((w\<lparr>apps := xs @ setattr_items d found # ys,
              stdout := stdout w @ [updated_line (pk found)]\<rparr>)\<lparr>site_table := t\<rparr>)"
      by simp
  qed
  then show ?thesis by blast
qed

lemma world_site_table_same: "w\<lparr>site_table := site_table w\<rparr> = (w :: world)"
  by simp

lemma run_blocks_attached:
  assumes "pk_unique (apps w)" and "distinct (map block_key bs)"
    and "all_attached bs (apps w)"
  shows "\<exists>w'. \<forall>t. run_blocks bs sid (w\<lparr>site_table := t\<rparr>) = Done (w'\<lparr>site_table := t\<rparr>)"
  using assms
proof (induction bs arbitrary: w)
  case Nil
  then show ?case by auto
next
  case (Cons b bs)
  obtain nm p cid sec where b: "b = (nm, p, cid, sec)" by (cases b) auto
  have d: "distinct (map block_key bs)" "\<forall>b'\<in>set bs. block_key b' \<noteq> p"
    using Cons.prems(2) by (auto simp: b)
  have "\<exists>w1. (\<forall>t. sync_block nm p cid sec sid (w\<lparr>site_table := t\<rparr>) = Done (w1\<lparr>site_table := t\<rparr>))"
  proof (cases "configured b")
    case True
    then have "has_site p (apps w)" using Cons.prems(3) by (simp add: all_attached_def b)
    from update_provider_attached[OF Cons.prems(1), of "\<lparr>data_name = nm, data_provider = p,
        data_client_id = the cid, data_secret = the sec\<rparr>" sid] this True
    show ?thesis by (simp add: sync_block_def b)
  next
    case False
    then show ?thesis by (auto simp: sync_block_def b)
  qed
  then obtain w1 where w1: "\<And>t. sync_block nm p cid sec sid (w\<lparr>site_table := t\<rparr>) = Done (w1\<lparr>site_table := t\<rparr>)"
    by blast
  have e: "world_of (sync_block nm p cid sec sid w) = w1\<lparr>site_table := site_table w\<rparr>"
    using w1[of "site_table w"] by simp
  have u1: "pk_unique (apps w1)"
    using sync_block_pk_unique[OF Cons.prems(1), of nm p cid sec sid] e by simp
  have fr: "\<And>q. q \<noteq> p \<Longrightarrow> rows_of q (apps w1) = rows_of q (apps w)"
    using sync_block_frame[OF Cons.prems(1), of nm p cid sec _ sid] e by simp
  have "all_attached bs (apps w1)"
    unfolding all_attached_def list_all_iff
  proof (intro ballI impI)
    fix b' assume b': "b' \<in> set bs" "configured b'"
    then have "has_site (block_key b') (apps w)"
      using Cons.prems(3) by (simp add: all_attached_def list_all_iff)
    moreover have "rows_of (block_key b') (apps w1) = rows_of (block_key b') (apps w)"
      using fr d(2) b'(1) by simp
    ultimately show "has_site (block_key b') (apps w1)" by (simp add: has_site_def)
  qed
  from Cons.IH[OF u1 d(1) this] obtain w' where
    "\<forall>t. run_blocks bs sid (w1\<lparr>site_table := t\<rparr>) = Done (w'\<lparr>site_table := t\<rparr>)" by blast
  then show ?case by (auto simp: b w1)
qed

lemma attached_run:
  "handle ex_ids gitlab_settings attached_world =
   Done \<lparr>apps = [\<lparr>pk = 4, name = ''GitLab'', provider = ''gitlab'', client_id = ''new'',
     secret = ''newer'', sites = [7]\<rparr>], site_table = [],
     stdout = [''Updated existing authentication provider (pk=4)'']\<rparr>"
  by code_simp

lemma attached_world_facts:
  "pk_unique (apps attached_world)"
  "all_attached (provider_blocks ex_ids gitlab_settings) (apps attached_world)"
  "SITE_ID gitlab_settings \<notin> set (site_table attached_world)"
  by code_simp+

lemma lacks_site_rows:
  assumes "lacks_site p rows"
  shows "rows_of p rows = [] \<or> (\<exists>f. rows_of p rows = [f] \<and> sites f = [])"
  using assms unfolding lacks_site_def by (auto split: list.splits)

lemma update_provider_site_missing:
  assumes "pk_unique (apps w)" and "lacks_site (data_provider d) (apps w)"
    and "sid \<notin> set (site_table w)"
  shows "\<exists>w' a. update_provider d sid w = Raised SiteDoesNotExist w'
     \<and> rows_of (data_provider d) (apps w') = [a]
     \<and> name a = data_name d \<and> client_id a = data_client_id d \<and> secret a = data_secret d
     \<and> sites a = []
     \<and> stdout w' = stdout w @
          [if rows_of (data_provider d) (apps w) = [] then created_line (pk a)
           else updated_line (pk a)]"
proof (cases rule: rows_of_cases[of "data_provider d" "apps w"])
  case none
  then have f: "filter (\<lambda>r. provider r = data_provider d) (apps w) = []"
    by (simp add: rows_of_def)
  show ?thesis
    using none(1) f assms(3)
    by (simp add: update_provider_none rows_of_def save_new_def)
next
  case (one xs found ys)
  have f: "filter (\<lambda>r. provider r = data_provider d) xs = []"
     "filter (\<lambda>r. provider r = data_provider d) ys = []"
    using one(3,4) by (simp_all add: filter_empty_conv)
  have e: "sites found = []"
    using lacks_site_rows[OF assms(2)] one(5) by auto
  show ?thesis
    using one(1,5) f e assms(3)
    by (simp add: update_provider_one[OF assms(1) one(1) one(5)] rows_of_def setattr_items_def)
next
  case (many a b cs)
  then show ?thesis using assms(2) by (simp add: lacks_site_def)
qed

lemma sync_block_attached_done:
  assumes "pk_unique (apps w)" and "configured (nm, p, cid, sec) \<longrightarrow> has_site p (apps w)"
  shows "\<exists>w1. sync_block nm p cid sec sid w = Done w1"
proof (cases "configured (nm, p, cid, sec)")
  case True
  with assms(2) have "has_site p (apps w)" by simp
  from update_provider_attached[OF assms(1), of "\<lparr>data_name = nm, data_provider = p,
        data_client_id = the cid, data_secret = the sec\<rparr>" sid] this
  obtain w' where a: "\<forall>t. update_provider \<lparr>data_name = nm, data_provider = p,
        data_client_id = the cid, data_secret = the sec\<rparr> sid (w\<lparr>site_table := t\<rparr>)
      = Done (w'\<lparr>site_table := t\<rparr>)" by auto
  have "update_provider \<lparr>data_name = nm, data_provider = p,
        data_client_id = the cid, data_secret = the sec\<rparr> sid w
      = Done (w'\<lparr>site_table := site_table w\<rparr>)"
    using spec[OF a, of "site_table w"] by simp
  then show ?thesis using True by (simp add: sync_block_def)
next
  case False
  then show ?thesis by (auto simp: sync_block_def)
qed

lemma not_lacks_has_site:
  assumes "\<not> lacks_site p rows" and "length (rows_of p rows) \<le> 1"
  shows "has_site p rows"
  using assms rows_of_at_most_one[OF assms(2)]
  by (auto simp: lacks_site_def has_site_def)

lemma run_blocks_raise_at:
  assumes "pk_unique (apps w)"
    and "distinct (map block_key (pre @ (nm, p, Some c, Some s) # post))"
    and "all_attached pre (apps w)" and "lacks_site p (apps w)"
    and "sid \<notin> set (site_table w)"
  shows "\<exists>w' a. run_blocks (pre @ (nm, p, Some c, Some s) # post) sid w
                  = Raised SiteDoesNotExist w'
     \<and> rows_of p (apps w') = [a]
     \<and> name a = nm \<and> client_id a = c \<and> secret a = s \<and> sites a = []
     \<and> stdout w' \<noteq> []
     \<and> last (stdout w') =
          (if rows_of p (apps w) = [] then created_line (pk a) else updated_line (pk a))
     \<and> (\<forall>b\<in>set post. rows_of (block_key b) (apps w') = rows_of (block_key b) (apps w))"
  using assms
proof (induction pre arbitrary: w)
  case Nil
  let ?d = "\<lparr>data_name = nm, data_provider = p, data_client_id = c, data_secret = s\<rparr>"
  from update_provider_site_missing[OF Nil.prems(1), of ?d sid] Nil.prems(4,5)
  obtain w' a where r: "update_provider ?d sid w = Raised SiteDoesNotExist w'"
    "rows_of p (apps w') = [a]" "name a = nm" "client_id a = c" "secret a = s" "sites a = []"
    "stdout w' = stdout w @
          [if rows_of p (apps w) = [] then created_line (pk a) else updated_line (pk a)]"
    by auto
  have "\<forall>b\<in>set post. rows_of (block_key b) (apps w') = rows_of (block_key b) (apps w)"
  proof
    fix b assume "b \<in> set post"
    then have "block_key b \<noteq> data_provider ?d" using Nil.prems(2) by auto
    from update_provider_frame[OF Nil.prems(1) this, of sid] r(1)
    show "rows_of (block_key b) (apps w') = rows_of (block_key b) (apps w)" by simp
  qed
  with r show ?case by (simp add: sync_block_def)
next
  case (Cons b0 pre)
  obtain nm0 p0 cid0 sec0 where b0: "b0 = (nm0, p0, cid0, sec0)" by (cases b0) auto
  have a0: "configured (nm0, p0, cid0, sec0) \<longrightarrow> has_site p0 (apps w)"
    using Cons.prems(3) by (simp add: all_attached_def b0)
  obtain w1 where w1: "sync_block nm0 p0 cid0 sec0 sid w = Done w1"
    using sync_block_attached_done[OF Cons.prems(1) a0] by blast
  have u1: "pk_unique (apps w1)"
    using sync_block_pk_unique[OF Cons.prems(1), of nm0 p0 cid0 sec0 sid] w1 by simp
  have st1: "site_table w1 = site_table w"
    using sync_block_site_table[OF Cons.prems(1), of nm0 p0 cid0 sec0 sid] w1 by simp
  have fr: "\<And>q. q \<noteq> p0 \<Longrightarrow> rows_of q (apps w1) = rows_of q (apps w)"
    using sync_block_frame[OF Cons.prems(1), of nm0 p0 cid0 sec0 _ sid] w1 by simp
  have d: "distinct (map block_key (pre @ (nm, p, Some c, Some s) # post))"
    "p \<noteq> p0" "\<forall>b\<in>set pre. block_key b \<noteq> p0" "\<forall>b\<in>set post. block_key b \<noteq> p0"
    using Cons.prems(2) by (auto simp: b0)
  have at1: "all_attached pre (apps w1)"
    unfolding all_attached_def list_all_iff
  proof (intro ballI impI)
    fix b' assume b': "b' \<in> set pre" "configured b'"
    then have "has_site (block_key b') (apps w)"
      using Cons.prems(3) by (simp add: all_attached_def list_all_iff)
    moreover have "rows_of (block_key b') (apps w1) = rows_of (block_key b') (apps w)"
      using fr d(3) b'(1) by simp
    ultimately show "has_site (block_key b') (apps w1)" by (simp add: has_site_def)
  qed
  have rp: "rows_of p (apps w1) = rows_of p (apps w)" using fr d(2) by simp
  have l1: "lacks_site p (apps w1)" using Cons.prems(4) rp by (simp add: lacks_site_def)
  have s1: "sid \<notin> set (site_table w1)" using Cons.prems(5) st1 by simp
  from Cons.IH[OF u1 d(1) at1 l1 s1]
  obtain w' a where r: "run_blocks (pre @ (nm, p, Some c, Some s) # post) sid w1
                  = Raised SiteDoesNotExist w'"
     "rows_of p (apps w') = [a]"
     "name a = nm" "client_id a = c" "secret a = s" "sites a = []"
     "stdout w' \<noteq> []"
     "last (stdout w') =
          (if rows_of p (apps w1) = [] then created_line (pk a) else updated_line (pk a))"
     "\<forall>b\<in>set post. rows_of (block_key b) (apps w') = rows_of (block_key b) (apps w1)"
    by blast
  have "\<forall>b\<in>set post. rows_of (block_key b) (apps w') = rows_of (block_key b) (apps w)"
    using r(9) fr d(4) by simp
  moreover have "run_blocks ((b0 # pre) @ (nm, p, Some c, Some s) # post) sid w
                  = Raised SiteDoesNotExist w'"
    using r(1) w1 by (simp add: b0)
  ultimately show ?case using r(2-8) rp by auto
qed

lemma first_lacking_block:
  assumes "one_row_at_most bs rows" and "b0 \<in> set bs" and "configured b0"
    and "lacks_site (block_key b0) rows"
  shows "\<exists>pre nm p c s post. bs = pre @ (nm, p, Some c, Some s) # post
     \<and> all_attached pre rows \<and> lacks_site p rows"
proof -
  let ?P = "\<lambda>b. configured b \<and> lacks_site (block_key b) rows"
  have "\<exists>b\<in>set bs. ?P b" using assms(2-4) by blast
  then obtain pre b post where s: "bs = pre @ b # post" "?P b" "\<forall>y\<in>set pre. \<not> ?P y"
    using split_list_first_prop[of bs ?P] by blast
  obtain nm p c s where b: "b = (nm, p, Some c, Some s)"
    using s(2) by (cases b) auto
  have "all_attached pre rows"
    unfolding all_attached_def list_all_iff
  proof (intro ballI impI)
    fix y assume y: "y \<in> set pre" "configured y"
    then have "\<not> lacks_site (block_key y) rows" using s(3) by blast
    moreover have "length (rows_of (block_key y) rows) \<le> 1"
      using assms(1) y(1) s(1) by (simp add: one_row_at_most_def list_all_iff)
    ultimately show "has_site (block_key y) rows" by (rule not_lacks_has_site)
  qed
  moreover have "bs = pre @ (nm, p, Some c, Some s) # post" using s(1) b by simp
  moreover have "lacks_site p rows" using s(2) b by simp
  ultimately show ?thesis by blast
qed

lemma no_site_world_facts:
  "pk_unique (apps no_site_world)"
  "one_row_at_most (provider_blocks ex_ids fxa_github_settings) (apps no_site_world)"
  "SITE_ID fxa_github_settings \<notin> set (site_table no_site_world)"
  "(''GitHub'', ''github'', Some ''abc'', Some ''def'')
     \<in> set (provider_blocks ex_ids fxa_github_settings)"
  "lacks_site ''github'' (apps no_site_world)"
  by code_simp+

lemma report_line_cong:
  assumes "rows_of (block_key b) r1 = rows_of (block_key b) r2"
  shows "report_line r1 rows' b = report_line r2 rows' b"
  using assms by (cases b) (simp split: list.splits)

lemma report_line_one:
  assumes "rows_of p rows' = [a]"
  shows "report_line rows rows' (nm, p, cid, sec) =
           (if rows_of p rows = [] then created_line (pk a) else updated_line (pk a))"
  using assms by simp

lemma run_blocks_stdout:
  assumes "pk_unique (apps w)" and "distinct (map block_key bs)"
  shows "\<exists>k\<le>length (filter configured bs).
      stdout (world_of (run_blocks bs sid w)) =
        stdout w @ map (report_line (apps w) (apps (world_of (run_blocks bs sid w))))
                     (take k (filter configured bs))
    \<and> (\<forall>w'. run_blocks bs sid w = Done w' \<longrightarrow> k = length (filter configured bs))"
  using assms
proof (induction bs arbitrary: w)
  case Nil
  then show ?case by simp
next
  case (Cons b bs)
  obtain nm p cid sec where b: "b = (nm, p, cid, sec)" by (cases b) auto
  have d: "distinct (map block_key bs)" "\<forall>b'\<in>set bs. block_key b' \<noteq> p"
    using Cons.prems(2) by (auto simp: b)
  show ?case
  proof (cases "configured b")
    case False
    then have s: "sync_block nm p cid sec sid w = Done w" by (auto simp: sync_block_def b)
    have f: "filter configured (b # bs) = filter configured bs" using False by simp
    have r: "run_blocks (b # bs) sid w = run_blocks bs sid w" by (simp add: b s)
    show ?thesis unfolding f r by (rule Cons.IH[OF Cons.prems(1) d(1)])
  next
    case True
    let ?d = "\<lparr>data_name = nm, data_provider = p, data_client_id = the cid,
               data_secret = the sec\<rparr>"
    have sb: "sync_block nm p cid sec sid w = update_provider ?d sid w"
      using True by (simp add: sync_block_def b)
    have f: "filter configured (b # bs) = b # filter configured bs" using True by simp
    have r: "run_blocks (b # bs) sid w = then_do (update_provider ?d sid w) (run_blocks bs sid)"
      by (simp add: b sb)
    have rec: "rows_of p (apps w) = [] \<or> (\<exists>f. rows_of p (apps w) = [f]) \<Longrightarrow> ?thesis"
    proof -
      assume "rows_of p (apps w) = [] \<or> (\<exists>f. rows_of p (apps w) = [f])"
      with update_provider_record[OF Cons.prems(1), of ?d sid]
      obtain a where a: "rows_of p (apps (world_of (update_provider ?d sid w))) = [a]"
        "stdout (world_of (update_provider ?d sid w)) = stdout w @
          [if rows_of p (apps w) = [] then created_line (pk a) else updated_line (pk a)]"
        by auto
      show ?thesis
      proof (cases "update_provider ?d sid w")
        case (Raised e w1)
        have "stdout w1 = stdout w @ map (report_line (apps w) (apps w1)) (take 1 (b # filter configured bs))"
          using a Raised by (simp add: b)
        then show ?thesis unfolding f r Raised by (intro exI[of _ 1]) simp
      next
        case (Done w1)
        have u1: "pk_unique (apps w1)"
          using update_provider_pk_unique[OF Cons.prems(1), of ?d sid] Done by simp
        let ?wf = "world_of (run_blocks bs sid w1)"
        from Cons.IH[OF u1 d(1)] obtain k where k: "k \<le> length (filter configured bs)"
          "stdout ?wf = stdout w1 @ map (report_line (apps w1) (apps ?wf)) (take k (filter configured bs))"
          "\<forall>w'. run_blocks bs sid w1 = Done w' \<longrightarrow> k = length (filter configured bs)"
          by blast
        have fr: "rows_of p (apps ?wf) = [a]"
          using run_blocks_frame[OF u1, of bs p sid] d(2) a(1) Done by simp
        have l: "report_line (apps w) (apps ?wf) b =
            (if rows_of p (apps w) = [] then created_line (pk a) else updated_line (pk a))"
          unfolding b by (rule report_line_one[OF fr])
        have m: "map (report_line (apps w1) (apps ?wf)) (take k (filter configured bs))
               = map (report_line (apps w) (apps ?wf)) (take k (filter configured bs))"
        proof (rule map_cong[OF refl])
          fix b' assume "b' \<in> set (take k (filter configured bs))"
          then have "b' \<in> set bs" by (auto dest: in_set_takeD)
          then have "block_key b' \<noteq> data_provider ?d" using d(2) by simp
          from update_provider_frame[OF Cons.prems(1) this, of sid] Done
          have "rows_of (block_key b') (apps w1) = rows_of (block_key b') (apps w)" by simp
          then show "report_line (apps w1) (apps ?wf) b' = report_line (apps w) (apps ?wf) b'"
            by (rule report_line_cong)
        qed
        have "stdout ?wf = stdout w @ map (report_line (apps w) (apps ?wf))
                 (take (Suc k) (b # filter configured bs))"
          using k(2) a(2) Done l m by simp
        then show ?thesis unfolding f r Done using k(1,3)
          by (intro exI[of _ "Suc k"]) simp
      qed
    qed
    show ?thesis
    proof (cases rule: rows_of_cases[of p "apps w"])
      case (many a1 a2 cs)
      then have "update_provider ?d sid w = Raised SocialAppMultipleObjectsReturned w"
        by (simp add: update_provider_many)
      then show ?thesis unfolding f r by (intro exI[of _ 0]) simp
    next
      case none
      then show ?thesis using rec by simp
    next
      case (one xs found ys)
      then show ?thesis using rec by simp
    qed
  qed
qed

lemma github_discord_run:
  "handle ex_ids github_discord_settings discord_world =
   Done \<lparr>apps = [\<lparr>pk = 1, name = ''Discord'', provider = ''discord'', client_id = ''x2'',
              secret = ''y2'', sites = [1]\<rparr>,
            \<lparr>pk = 2, name = ''GitHub'', provider = ''github'', client_id = ''abc'',
              secret = ''def'', sites = [1]\<rparr>],
      site_table = [1],
      stdout = [''Created new authentication provider (pk=2)'',
                ''Updated existing authentication provider (pk=1)'']\<rparr>"
  by code_simp

lemma discord_world_pk_unique: "pk_unique (apps discord_world)"
  by code_simp

lemma run_blocks_line_count:
  assumes "pk_unique (apps w)" and "distinct (map block_key bs)"
    and "run_blocks bs sid w = Done w'"
  shows "length (stdout w') = length (stdout w) + length (filter configured bs)"
proof -
  from run_blocks_stdout[OF assms(1,2), of sid] assms(3)
  obtain k where "stdout w' = stdout w @ map (report_line (apps w) (apps w'))
                     (take k (filter configured bs))" "k = length (filter configured bs)"
    by auto
  then show ?thesis by simp
qed

lemma setattr_items_same:
  assumes "provider a = data_provider d" and "name a = data_name d"
    and "client_id a = data_client_id d" and "secret a = data_secret d"
  shows "setattr_items d a = a"
  using assms by (simp add: setattr_items_def)

lemma update_provider_settled:
  assumes "pk_unique (apps w)" and "rows_of (data_provider d) (apps w) = [a]"
    and "name a = data_name d" and "client_id a = data_client_id d"
    and "secret a = data_secret d"
  shows "sites a \<noteq> [] \<Longrightarrow>
           update_provider d sid w = Done (w\<lparr>stdout := stdout w @ [updated_line (pk a)]\<rparr>)"
    and "sites a = [] \<Longrightarrow> sid \<notin> set (site_table w) \<Longrightarrow>
           update_provider d sid w =
             Raised SiteDoesNotExist (w\<lparr>stdout := stdout w @ [updated_line (pk a)]\<rparr>)"
proof -
  obtain xs ys where s: "apps w = xs @ a # ys"
    using assms(2) by (cases rule: rows_of_cases[of "data_provider d" "apps w"]) auto
  have e: "setattr_items d a = a"
    using rows_of_one_provider[OF assms(2)] assms(3-5) by (intro setattr_items_same) simp_all
  have w: "w\<lparr>apps := xs @ a # ys, stdout := stdout w @ [updated_line (pk a)]\<rparr>
         = w\<lparr>stdout := stdout w @ [updated_line (pk a)]\<rparr>"
    using s by (cases w) simp
  show "sites a \<noteq> [] \<Longrightarrow>
           update_provider d sid w = Done (w\<lparr>stdout := stdout w @ [updated_line (pk a)]\<rparr>)"
    by (simp add: update_provider_one[OF assms(1) s assms(2)] e w)
  show "sites a = [] \<Longrightarrow> sid \<notin> set (site_table w) \<Longrightarrow>
           update_provider d sid w =
             Raised SiteDoesNotExist (w\<lparr>stdout := stdout w @ [updated_line (pk a)]\<rparr>)"
    by (simp add: update_provider_one[OF assms(1) s assms(2)] e w)
qed

lemma update_provider_raised_record:
  assumes "pk_unique (apps w)" and "update_provider d sid w = Raised e w1"
    and "rows_of (data_provider d) (apps w) = [] \<or> (\<exists>f. rows_of (data_provider d) (apps w) = [f])"
  shows "e = SiteDoesNotExist \<and> sid \<notin> set (site_table w)
     \<and> (\<exists>a. rows_of (data_provider d) (apps w1) = [a]
           \<and> name a = data_name d \<and> client_id a = data_client_id d
           \<and> secret a = data_secret d \<and> sites a = [])"
proof (cases rule: rows_of_cases[of "data_provider d" "apps w"])
  case none
  then have f: "filter (\<lambda>r. provider r = data_provider d) (apps w) = []"
    by (simp add: rows_of_def)
  show ?thesis
    using assms(2) f
    by (auto simp: update_provider_none[OF none(1)] rows_of_def save_new_def split: if_splits)
next
  case (one xs found ys)
  have f: "filter (\<lambda>r. provider r = data_provider d) xs = []"
     "filter (\<lambda>r. provider r = data_provider d) ys = []"
    using one(3,4) by (simp_all add: filter_empty_conv)
  show ?thesis
    using assms(2) f
    by (auto simp: update_provider_one[OF assms(1) one(1) one(5)] rows_of_def
        setattr_items_def split: if_splits)
next
  case (many a b cs)
  then show ?thesis using assms(3) by simp
qed

lemma run_blocks_twice:
  assumes "pk_unique (apps w)" and "distinct (map block_key bs)"
    and "apps w2 = apps (world_of (run_blocks bs sid w))" and "site_table w2 = site_table w"
  shows "apps (world_of (run_blocks bs sid w2)) = apps w2
    \<and> (\<exists>ks. stdout (world_of (run_blocks bs sid w2)) = stdout w2 @ map updated_line ks)
    \<and> (\<forall>w'. run_blocks bs sid w = Done w' \<longrightarrow> (\<exists>w''. run_blocks bs sid w2 = Done w''))"
  using assms
proof (induction bs arbitrary: w w2)
  case Nil
  show ?case by (simp add: exI[of _ "[]"])
next
  case (Cons b bs)
  obtain nm p cid sec where b: "b = (nm, p, cid, sec)" by (cases b) auto
  have d: "distinct (map block_key bs)" "\<forall>b'\<in>set bs. configured b' \<longrightarrow> block_key b' \<noteq> p"
    using Cons.prems(2) by (auto simp: b)
  show ?case
  proof (cases "configured b")
    case False
    then have s: "\<And>v. sync_block nm p cid sec sid v = Done v" by (auto simp: sync_block_def b)
    have r: "\<And>v. run_blocks (b # bs) sid v = run_blocks bs sid v" by (simp add: b s)
    show ?thesis
      unfolding r using Cons.IH[OF Cons.prems(1) d(1)] Cons.prems(3,4) unfolding r by blast
  next
    case True
    let ?d = "\<lparr>data_name = nm, data_provider = p, data_client_id = the cid,
               data_secret = the sec\<rparr>"
    have r: "\<And>v. run_blocks (b # bs) sid v = then_do (update_provider ?d sid v) (run_blocks bs sid)"
      using True by (simp add: b sync_block_def)
    have u2: "pk_unique (apps w2)"
      using run_blocks_pk_unique[OF Cons.prems(1), of "b # bs" sid] Cons.prems(3) by simp
    have rec: ?thesis if nm: "rows_of p (apps w) = [] \<or> (\<exists>f. rows_of p (apps w) = [f])"
    proof (cases "update_provider ?d sid w")
      case (Raised e w1)
      from update_provider_raised_record[OF Cons.prems(1) Raised] nm
      obtain a where a: "e = SiteDoesNotExist" "sid \<notin> set (site_table w)"
        "rows_of p (apps w1) = [a]" "name a = nm" "client_id a = the cid" "secret a = the sec"
        "sites a = []" by auto
      have e2: "apps w2 = apps w1" using Cons.prems(3) Raised by (simp add: r)
      have "update_provider ?d sid w2 =
             Raised SiteDoesNotExist (w2\<lparr>stdout := stdout w2 @ [updated_line (pk a)]\<rparr>)"
        using a Cons.prems(4) e2 by (intro update_provider_settled(2)[OF u2]) simp_all
      then show ?thesis
        unfolding r using Raised by (simp add: exI[of _ "[pk a]"])
    next
      case (Done w1)
      from update_provider_done_record[OF Cons.prems(1) Done]
      obtain a where a: "rows_of p (apps w1) = [a]" "name a = nm" "client_id a = the cid"
        "secret a = the sec" "sites a \<noteq> []" by auto
      have u1: "pk_unique (apps w1)"
        using update_provider_pk_unique[OF Cons.prems(1), of ?d sid] Done by simp
      have st1: "site_table w1 = site_table w"
        using update_provider_site_table[OF Cons.prems(1), of ?d sid] Done by simp
      have e2: "apps w2 = apps (world_of (run_blocks bs sid w1))"
        using Cons.prems(3) Done by (simp add: r)
      have "rows_of p (apps w2) = [a]"
        using run_blocks_frame[OF u1 d(2), of sid] a(1) e2 by simp
      then have s2: "update_provider ?d sid w2 =
             Done (w2\<lparr>stdout := stdout w2 @ [updated_line (pk a)]\<rparr>)"
        using a by (intro update_provider_settled(1)[OF u2]) simp_all
      let ?w2' = "w2\<lparr>stdout := stdout w2 @ [updated_line (pk a)]\<rparr>"
      have "apps ?w2' = apps (world_of (run_blocks bs sid w1))" "site_table ?w2' = site_table w1"
        using e2 st1 Cons.prems(4) by simp_all
      from Cons.IH[OF u1 d(1) this]
      obtain ks where ih: "apps (world_of (run_blocks bs sid ?w2')) = apps ?w2'"
        "stdout (world_of (run_blocks bs sid ?w2')) = stdout ?w2' @ map updated_line ks"
        "\<forall>w'. run_blocks bs sid w1 = Done w' \<longrightarrow> (\<exists>w''. run_blocks bs sid ?w2' = Done w'')"
        by blast
      have "stdout (world_of (run_blocks bs sid ?w2')) = stdout w2 @ map updated_line (pk a # ks)"
        using ih(2) by simp
      then have "\<exists>ks. stdout (world_of (run_blocks bs sid ?w2')) = stdout w2 @ map updated_line ks"
        by blast
      with ih(1,3) show ?thesis
        unfolding r s2 Done by simp
    qed
    show ?thesis
    proof (cases rule: rows_of_cases[of p "apps w"])
      case (many a1 a2 cs)
      then have 1: "update_provider ?d sid w = Raised SocialAppMultipleObjectsReturned w"
        by (simp add: update_provider_many)
      then have "apps w2 = apps w" using Cons.prems(3) by (simp add: r)
      with many have "update_provider ?d sid w2 = Raised SocialAppMultipleObjectsReturned w2"
        by (simp add: update_provider_many)
      with 1 show ?thesis unfolding r by (simp add: exI[of _ "[]"])
    next
      case none
      then show ?thesis using rec by simp
    next
      case (one xs found ys)
      then show ?thesis using rec by simp
    qed
  qed
qed

lemma github_second_run:
  "handle ex_ids github_settings (world_of (handle ex_ids github_settings empty_world)) =
   Done \<lparr>apps = [\<lparr>pk = 1, name = ''GitHub'', provider = ''github'', client_id = ''abc'',
     secret = ''def'', sites = [1]\<rparr>], site_table = [1],
     stdout = [''Created new authentication provider (pk=1)'',
               ''Updated existing authentication provider (pk=1)'']\<rparr>"
  by code_simp

lemma dup_world_facts:
  "pk_unique (apps dup_world)"
  "2 \<le> length (rows_of ''github'' (apps dup_world))"
  by code_simp+

lemma discord_world_facts:
  "rows_of ''discord'' (apps discord_world) = [discord_row]"
  "rows_of ''github'' (apps discord_world) = []"
  "pk discord_row = 1"
  by code_simp+

lemma sites_grown_by_nth:
  "sites_grown_by sid tbl xs ys \<longleftrightarrow>
     length xs \<le> length ys
     \<and> (\<forall>i<length xs. old_row_sites sid tbl (xs ! i) (ys ! i))
     \<and> (\<forall>i. length xs \<le> i \<and> i < length ys \<longrightarrow> new_row_sites sid tbl (ys ! i))"
proof -
  have "list_all (new_row_sites sid tbl) (drop (length xs) ys) \<longleftrightarrow>
          (\<forall>i. length xs \<le> i \<and> i < length ys \<longrightarrow> new_row_sites sid tbl (ys ! i))"
    if l: "length xs \<le> length ys"
  proof
    assume a: "list_all (new_row_sites sid tbl) (drop (length xs) ys)"
    show "\<forall>i. length xs \<le> i \<and> i < length ys \<longrightarrow> new_row_sites sid tbl (ys ! i)"
    proof (intro allI impI)
      fix i assume i: "length xs \<le> i \<and> i < length ys"
      then have "i - length xs < length (drop (length xs) ys)" by auto
      with a have "new_row_sites sid tbl (drop (length xs) ys ! (i - length xs))"
        by (simp add: list_all_length)
      then show "new_row_sites sid tbl (ys ! i)" using i l by simp
    qed
  next
    assume a: "\<forall>i. length xs \<le> i \<and> i < length ys \<longrightarrow> new_row_sites sid tbl (ys ! i)"
    show "list_all (new_row_sites sid tbl) (drop (length xs) ys)"
      unfolding list_all_length
    proof (intro allI impI)
      fix n assume "n < length (drop (length xs) ys)"
      then have "length xs \<le> length xs + n \<and> length xs + n < length ys" by simp
      with a have "new_row_sites sid tbl (ys ! (length xs + n))" by blast
      then show "new_row_sites sid tbl (drop (length xs) ys ! n)" using l by simp
    qed
  qed
  then show ?thesis
    by (auto simp: sites_grown_by_def list_all2_conv_all_nth)
qed

lemma sites_grown_by_refl: "sites_grown_by sid tbl rows rows"
  by (auto simp: sites_grown_by_nth old_row_sites_def)

lemma old_row_sites_trans:
  "old_row_sites sid tbl a b \<Longrightarrow> old_row_sites sid tbl b c \<Longrightarrow> old_row_sites sid tbl a c"
  by (auto simp: old_row_sites_def)

lemma new_then_old_row_sites:
  "new_row_sites sid tbl b \<Longrightarrow> old_row_sites sid tbl b c \<Longrightarrow> new_row_sites sid tbl c"
  by (auto simp: old_row_sites_def new_row_sites_def)

lemma sites_grown_by_trans:
  assumes "sites_grown_by sid tbl xs ys" and "sites_grown_by sid tbl ys zs"
  shows "sites_grown_by sid tbl xs zs"
  unfolding sites_grown_by_nth
proof (intro conjI allI impI)
  show "length xs \<le> length zs" using assms by (simp add: sites_grown_by_nth)
next
  fix i assume i: "i < length xs"
  then have "old_row_sites sid tbl (xs ! i) (ys ! i)"
    using assms(1) by (simp add: sites_grown_by_nth)
  moreover have "old_row_sites sid tbl (ys ! i) (zs ! i)"
    using assms i by (simp add: sites_grown_by_nth)
  ultimately show "old_row_sites sid tbl (xs ! i) (zs ! i)" by (rule old_row_sites_trans)
next
  fix i assume i: "length xs \<le> i \<and> i < length zs"
  show "new_row_sites sid tbl (zs ! i)"
  proof (cases "i < length ys")
    case True
    then have "new_row_sites sid tbl (ys ! i)" "old_row_sites sid tbl (ys ! i) (zs ! i)"
      using assms i by (simp_all add: sites_grown_by_nth)
    then show ?thesis by (rule new_then_old_row_sites)
  next
    case False
    then show ?thesis using assms(2) i by (simp add: sites_grown_by_nth)
  qed
qed

lemma sites_grown_by_append:
  "new_row_sites sid tbl a \<Longrightarrow> sites_grown_by sid tbl rows (rows @ [a])"
  by (simp add: sites_grown_by_def list_all2_refl old_row_sites_def)

lemma sites_grown_by_replace:
  assumes "old_row_sites sid tbl a a'"
  shows "sites_grown_by sid tbl (xs @ a # ys) (xs @ a' # ys)"
  using assms
  by (simp add: sites_grown_by_def list_all2_appendI list_all2_refl old_row_sites_def)

lemma update_provider_sites_grown:
  assumes "pk_unique (apps w)"
  shows "sites_grown_by sid (site_table w) (apps w) (apps (world_of (update_provider d sid w)))"
proof (cases rule: rows_of_cases[of "data_provider d" "apps w"])
  case none
  then show ?thesis
    by (simp add: update_provider_none sites_grown_by_append new_row_sites_def save_new_def)
next
  case (one xs found ys)
  have k1: "old_row_sites sid (site_table w) found (setattr_items d found)"
    by (simp add: old_row_sites_def setattr_items_def)
  have k2: "sites found = [] \<Longrightarrow> sid \<in> set (site_table w) \<Longrightarrow>
      old_row_sites sid (site_table w) found ((setattr_items d found)\<lparr>sites := [sid]\<rparr>)"
    by (simp add: old_row_sites_def setattr_items_def)
  show ?thesis
    using k1 k2 one(1)
    by (simp add: update_provider_one[OF assms one(1) one(5)] sites_grown_by_replace)
next
  case (many a b cs)
  then show ?thesis by (simp add: update_provider_many sites_grown_by_refl)
qed

lemma run_blocks_sites_grown:
  assumes "pk_unique (apps w)"
  shows "sites_grown_by sid (site_table w) (apps w) (apps (world_of (run_blocks bs sid w)))"
proof -
  have "site_table (world_of (run_blocks bs sid w)) = site_table w
      \<and> sites_grown_by sid (site_table w) (apps w) (apps (world_of (run_blocks bs sid w)))"
  proof (rule run_blocks_rel[where R="\<lambda>a b. site_table b = site_table a
        \<and> sites_grown_by sid (site_table a) (apps a) (apps b)", OF _ _ _ assms])
    fix v :: world
    show "site_table v = site_table v \<and> sites_grown_by sid (site_table v) (apps v) (apps v)"
      by (simp add: sites_grown_by_refl)
  next
    fix a b c :: world
    assume "site_table b = site_table a \<and> sites_grown_by sid (site_table a) (apps a) (apps b)"
      "site_table c = site_table b \<and> sites_grown_by sid (site_table b) (apps b) (apps c)"
    then show "site_table c = site_table a \<and> sites_grown_by sid (site_table a) (apps a) (apps c)"
      using sites_grown_by_trans[of sid "site_table a" "apps a" "apps b" "apps c"] by simp
  next
    fix nm p cid sec and v :: world
    assume "(nm, p, cid, sec) \<in> set bs" and u: "pk_unique (apps v)"
    show "site_table (world_of (sync_block nm p cid sec sid v)) = site_table v
      \<and> sites_grown_by sid (site_table v) (apps v) (apps (world_of (sync_block nm p cid sec sid v)))"
      using sync_block_site_table[OF u, of nm p cid sec sid] update_provider_sites_grown[OF u]
      by (simp add: sync_block_def sites_grown_by_refl)
  qed
  then show ?thesis by simp
qed

lemma update_provider_done_sites:
  assumes "pk_unique (apps w)" and "update_provider d sid w = Done w'"
  shows "\<exists>a. rows_of (data_provider d) (apps w') = [a]
     \<and> sites a = expected_sites sid (apps w) (data_provider d)
     \<and> (has_site (data_provider d) (apps w) \<or> sid \<in> set (site_table w))"
proof (cases rule: rows_of_cases[of "data_provider d" "apps w"])
  case none
  then have f: "filter (\<lambda>r. provider r = data_provider d) (apps w) = []"
    by (simp add: rows_of_def)
  show ?thesis
    using assms(2) f none(1)
    by (auto simp: update_provider_none[OF none(1)] rows_of_def save_new_def
        expected_sites_def split: if_splits)
next
  case (one xs found ys)
  have f: "filter (\<lambda>r. provider r = data_provider d) xs = []"
     "filter (\<lambda>r. provider r = data_provider d) ys = []"
    using one(3,4) by (simp_all add: filter_empty_conv)
  have e: "expected_sites sid (apps w) (data_provider d)
         = (if sites found = [] then [sid] else sites found)"
    using one(5) by (simp add: expected_sites_def)
  have h: "has_site (data_provider d) (apps w) = (sites found \<noteq> [])"
    using one(5) by (simp add: has_site_def)
  show ?thesis
    using assms(2) f
    by (auto simp: update_provider_one[OF assms(1) one(1) one(5)] rows_of_def
        setattr_items_def e h split: if_splits)
next
  case (many a b cs)
  then show ?thesis using assms(2) by (simp add: update_provider_many)
qed

lemma run_blocks_done_sites:
  assumes "pk_unique (apps w)" and "distinct (map block_key bs)"
    and "run_blocks bs sid w = Done w'" and "(nm, p, Some c, Some s) \<in> set bs"
  shows "\<exists>a. rows_of p (apps w') = [a]
     \<and> sites a = expected_sites sid (apps w) p
     \<and> (has_site p (apps w) \<or> sid \<in> set (site_table w))"
  using assms
proof (induction bs arbitrary: w)
  case Nil
  then show ?case by simp
next
  case (Cons b bs)
  obtain nm0 p0 cid0 sec0 where b: "b = (nm0, p0, cid0, sec0)" by (cases b) auto
  obtain w1 where w1: "sync_block nm0 p0 cid0 sec0 sid w = Done w1" "run_blocks bs sid w1 = Done w'"
    using Cons.prems(3) unfolding b by (rule run_blocks_Cons_Done)
  have u1: "pk_unique (apps w1)"
    using sync_block_pk_unique[OF Cons.prems(1), of nm0 p0 cid0 sec0 sid] w1(1) by simp
  have st1: "site_table w1 = site_table w"
    using sync_block_site_table[OF Cons.prems(1), of nm0 p0 cid0 sec0 sid] w1(1) by simp
  show ?case
  proof (cases "(nm, p, Some c, Some s) = b")
    case True
    then have e: "nm0 = nm" "p0 = p" "cid0 = Some c" "sec0 = Some s" using b by auto
    let ?d = "\<lparr>data_name = nm, data_provider = p, data_client_id = c, data_secret = s\<rparr>"
    have "update_provider ?d sid w = Done w1"
      using w1(1) by (simp add: e sync_block_def)
    from update_provider_done_sites[OF Cons.prems(1) this]
    obtain a where a: "rows_of p (apps w1) = [a]" "sites a = expected_sites sid (apps w) p"
      "has_site p (apps w) \<or> sid \<in> set (site_table w)" by auto
    have "\<forall>b'\<in>set bs. configured b' \<longrightarrow> block_key b' \<noteq> p"
      using Cons.prems(2) by (auto simp: b e)
    from run_blocks_frame[OF u1 this, of sid] w1(2) a show ?thesis by simp
  next
    case False
    then have m: "(nm, p, Some c, Some s) \<in> set bs" using Cons.prems(4) by auto
    then have "block_key (nm, p, Some c, Some s) \<in> block_key ` set bs" by (rule imageI)
    then have "p \<noteq> p0" using Cons.prems(2) by (auto simp: b)
    then have fr: "rows_of p (apps w1) = rows_of p (apps w)"
      using sync_block_frame[OF Cons.prems(1), of nm0 p0 cid0 sec0 p sid] w1(1) by simp
    have d: "distinct (map block_key bs)" using Cons.prems(2) by simp
    from Cons.IH[OF u1 d w1(2) m]
    obtain a where a: "rows_of p (apps w') = [a]" "sites a = expected_sites sid (apps w1) p"
      "has_site p (apps w1) \<or> sid \<in> set (site_table w1)" by auto
    have "expected_sites sid (apps w1) p = expected_sites sid (apps w) p"
      "has_site p (apps w1) = has_site p (apps w)"
      using fr by (simp_all add: expected_sites_def has_site_def)
    with a st1 show ?thesis by simp
  qed
qed

lemma expected_sites_nonempty: "expected_sites sid rows p \<noteq> []"
  by (simp add: expected_sites_def split: list.splits)

lemma mixed_run:
  "handle ex_ids mixed_settings mixed_world =
   Done \<lparr>apps = [\<lparr>pk = 4, name = ''GitLab'', provider = ''gitlab'', client_id = ''new'',
               secret = ''newer'', sites = [7]\<rparr>,
             \<lparr>pk = 5, name = ''Discord'', provider = ''discord'', client_id = ''x2'',
               secret = ''y2'', sites = [1]\<rparr>,
             \<lparr>pk = 6, name = ''GitHub'', provider = ''github'', client_id = ''abc'',
               secret = ''def'', sites = [1]\<rparr>],
      site_table = [1, 7],
      stdout = [''Created new authentication provider (pk=6)'',
                ''Updated existing authentication provider (pk=4)'',
                ''Updated existing authentication provider (pk=5)'']\<rparr>"
  by code_simp

lemma mixed_world_facts:
  "pk_unique (apps mixed_world)"
  "map sites (apps mixed_world) = [[7], []]"
  "SITE_ID mixed_settings = 1"
  "site_table mixed_world = [1, 7]"
  "map block_key (filter configured (provider_blocks ex_ids mixed_settings))
     = [''github'', ''gitlab'', ''discord'']"
  "expected_sites 1 (apps mixed_world) ''github'' = [1]"
  "expected_sites 1 (apps mixed_world) ''gitlab'' = [7]"
  "expected_sites 1 (apps mixed_world) ''discord'' = [1]"
  by code_simp+

section \<open>The claims\<close>

text \<open>
  C2. A provider with one of its two settings absent is skipped: whatever else the run
  does, and whether it completes or raises, the rows of that provider key are after the
  run exactly the rows before it, so none is created and none is changed in any field.
\<close>

theorem absent_provider_untouched:
  assumes "ids_distinct ids" and "pk_unique (apps w)"
    and "(nm, p, cid, sec) \<in> set (provider_blocks ids st)"
    and "cid = None \<or> sec = None"
  shows "rows_of p (apps (world_of (handle ids st w))) = rows_of p (apps w)"
proof -
  have "\<forall>b\<in>set (provider_blocks ids st). configured b \<longrightarrow> block_key b \<noteq> p"
  proof (intro ballI impI notI)
    fix b assume b: "b \<in> set (provider_blocks ids st)" "configured b" "block_key b = p"
    have "b = (nm, p, cid, sec)"
      using distinct_keys_other[OF provider_blocks_distinct[OF assms(1)] assms(3) b(1)] b(3)
      by simp
    with b(2) assms(4) show False by auto
  qed
  then show ?thesis
    by (simp add: handle_run_blocks run_blocks_frame[OF assms(2)])
qed

theorem absent_provider_untouched_witness:
  "ids_distinct ex_ids \<and> pk_unique (apps gitlab_world)
   \<and> (''GitLab'', ''gitlab'', None, None) \<in> set (provider_blocks ex_ids github_settings)
   \<and> rows_of ''gitlab'' (apps (world_of (handle ex_ids github_settings gitlab_world)))
       = [gitlab_row]"
proof -
  have h1: "ids_distinct ex_ids" by (simp add: ids_distinct_def ex_ids_def)
  have h2: "pk_unique (apps gitlab_world)" by (simp add: pk_unique_def gitlab_world_def)
  have h3: "(''GitLab'', ''gitlab'', None, None) \<in> set (provider_blocks ex_ids github_settings)"
    by (simp add: provider_blocks_def ex_ids_def github_settings_def no_settings_def)
  have h4: "(None :: string option) = None \<or> (None :: string option) = None" by simp
  have "rows_of ''gitlab'' (apps gitlab_world) = [gitlab_row]"
    by (simp add: rows_of_def gitlab_world_def gitlab_row_def)
  with absent_provider_untouched[OF h1 h2 h3 h4] h1 h2 h3 show ?thesis by simp
qed

text \<open>
  C4. The provider key of a record never changes. Whatever the outcome of a run, every
  row of the table before it is, at its place in the table after it, a row of the same
  primary key and the same provider key, and primary keys stay unique. In particular the
  update branch: the row that \<open>get\<close> finds by \<open>data["provider"]\<close> has, after the
  \<open>setattr\<close> loop, the primary key and provider key it had.
\<close>

theorem provider_key_never_changes:
  assumes "pk_unique (apps w)"
  shows "pk_unique (apps (world_of (handle ids st w)))
    \<and> length (apps w) \<le> length (apps (world_of (handle ids st w)))
    \<and> list_all2 same_key (apps w) (take (length (apps w)) (apps (world_of (handle ids st w))))
    \<and> (case objects_get (data_provider d) (apps w) of
          Inr found \<Rightarrow> same_key found (setattr_items d found)
                       \<and> upsert d w = Inr (setattr_items d found,
                            stdout_write (updated_line (pk found))
                              (w\<lparr>apps := save_existing (setattr_items d found) (apps w)\<rparr>))
        | Inl e \<Rightarrow> True)"
proof -
  have k: "rows_kept (SITE_ID st) (apps w) (apps (world_of (handle ids st w)))"
    using run_blocks_rows_kept[OF assms] by (simp add: handle_run_blocks)
  have 1: "pk_unique (apps (world_of (handle ids st w)))"
    using run_blocks_pk_unique[OF assms] by (simp add: handle_run_blocks)
  have 2: "length (apps w) \<le> length (apps (world_of (handle ids st w)))"
    using k by (simp add: rows_kept_def)
  have 3: "list_all2 same_key (apps w) (take (length (apps w)) (apps (world_of (handle ids st w))))"
    using k by (rule list_all2_take_mono) (simp add: row_kept_def)
  have 4: "(case objects_get (data_provider d) (apps w) of
          Inr found \<Rightarrow> same_key found (setattr_items d found)
                       \<and> upsert d w = Inr (setattr_items d found,
                            stdout_write (updated_line (pk found))
                              (w\<lparr>apps := save_existing (setattr_items d found) (apps w)\<rparr>))
        | Inl e \<Rightarrow> True)"
  proof (cases "objects_get (data_provider d) (apps w)")
    case (Inr found)
    then have "provider found = data_provider d"
      using objects_get_Inr rows_of_one_provider by blast
    then show ?thesis
      using Inr by (simp add: same_key_def setattr_items_def upsert_def Let_def)
  qed simp
  from 1 2 3 4 show ?thesis by blast
qed

theorem provider_key_never_changes_witness:
  "pk_unique (apps gitlab_world)
   \<and> list_all2 same_key (apps gitlab_world)
        (take (length (apps gitlab_world))
           (apps (world_of (handle ex_ids gitlab_settings gitlab_world))))
   \<and> map provider (apps gitlab_world) = [''gitlab'']
   \<and> map provider (apps (world_of (handle ex_ids gitlab_settings gitlab_world))) = [''gitlab'']"
proof -
  have a: "map provider (apps gitlab_world) = [''gitlab'']" by code_simp
  have b: "map provider (apps (world_of (handle ex_ids gitlab_settings gitlab_world))) = [''gitlab'']"
    by (simp add: gitlab_update_run)
  from provider_key_never_changes[OF gitlab_world_pk_unique, where ids = ex_ids
      and st = gitlab_settings
      and d = "\<lparr>data_name = ''GitLab'', data_provider = ''gitlab'', data_client_id = ''new'',
               data_secret = ''newer''\<rparr>"]
    gitlab_world_pk_unique a b
  show ?thesis by blast
qed

text \<open>
  C6. The sites of a record are never cleared, shrunk or replaced, and the only site a
  run adds is the default site, to a record that has none. Whatever the outcome of a run:
  every row that was there keeps its sites, or had none and now has the default site
  alone, and then the default site is in the \<open>Site\<close> table; every row that is new has no
  site or the default site alone. After a run that completes, every provider that was
  synced has one record, and its sites are those its row had before the run when it had
  some, else the default site alone: so it has at least one site, and a missing site was
  added.
\<close>

theorem associated_sites_never_shrink:
  assumes "ids_distinct ids" and "pk_unique (apps w)"
  shows "list_all2 (sites_kept (SITE_ID st)) (apps w)
           (take (length (apps w)) (apps (world_of (handle ids st w))))
    \<and> sites_grown_by (SITE_ID st) (site_table w) (apps w) (apps (world_of (handle ids st w)))
    \<and> (handle ids st w = Done w' \<longrightarrow>
         (\<forall>b\<in>set (provider_blocks ids st). configured b \<longrightarrow>
            (\<exists>a. rows_of (block_key b) (apps w') = [a] \<and> sites a \<noteq> []
               \<and> sites a = expected_sites (SITE_ID st) (apps w) (block_key b)
               \<and> (has_site (block_key b) (apps w) \<or> SITE_ID st \<in> set (site_table w)))))"
proof (intro conjI impI ballI)
  have k: "rows_kept (SITE_ID st) (apps w) (apps (world_of (handle ids st w)))"
    using run_blocks_rows_kept[OF assms(2)] by (simp add: handle_run_blocks)
  show "list_all2 (sites_kept (SITE_ID st)) (apps w)
           (take (length (apps w)) (apps (world_of (handle ids st w))))"
    using k by (rule list_all2_take_mono) (simp add: row_kept_def)
next
  show "sites_grown_by (SITE_ID st) (site_table w) (apps w) (apps (world_of (handle ids st w)))"
    using run_blocks_sites_grown[OF assms(2)] by (simp add: handle_run_blocks)
next
  fix b
  assume d: "handle ids st w = Done w'" and b: "b \<in> set (provider_blocks ids st)" "configured b"
  obtain nm p c s where e: "b = (nm, p, Some c, Some s)"
    using b(2) by (cases b) auto
  have "\<exists>a. rows_of p (apps w') = [a]
     \<and> sites a = expected_sites (SITE_ID st) (apps w) p
     \<and> (has_site p (apps w) \<or> SITE_ID st \<in> set (site_table w))"
    using run_blocks_done_sites[OF assms(2) provider_blocks_distinct[OF assms(1)], of st "SITE_ID st" w' nm p c s]
      d b(1) by (simp add: handle_run_blocks e)
  then show "\<exists>a. rows_of (block_key b) (apps w') = [a] \<and> sites a \<noteq> []
               \<and> sites a = expected_sites (SITE_ID st) (apps w) (block_key b)
               \<and> (has_site (block_key b) (apps w) \<or> SITE_ID st \<in> set (site_table w))"
    using expected_sites_nonempty[of "SITE_ID st" "apps w" p] by (auto simp: e)
qed

theorem associated_sites_never_shrink_witness:
  "ids_distinct ex_ids \<and> pk_unique (apps mixed_world)
   \<and> handle ex_ids mixed_settings mixed_world
       = Done (world_of (handle ex_ids mixed_settings mixed_world))
   \<and> SITE_ID mixed_settings = 1 \<and> site_table mixed_world = [1, 7]
   \<and> map block_key (filter configured (provider_blocks ex_ids mixed_settings))
       = [''github'', ''gitlab'', ''discord'']
   \<and> map sites (apps mixed_world) = [[7], []]
   \<and> map sites (apps (world_of (handle ex_ids mixed_settings mixed_world))) = [[7], [1], [1]]
   \<and> expected_sites 1 (apps mixed_world) ''github'' = [1]
   \<and> expected_sites 1 (apps mixed_world) ''gitlab'' = [7]
   \<and> expected_sites 1 (apps mixed_world) ''discord'' = [1]
   \<and> list_all2 (sites_kept (SITE_ID mixed_settings)) (apps mixed_world)
        (take (length (apps mixed_world))
           (apps (world_of (handle ex_ids mixed_settings mixed_world))))
   \<and> sites_grown_by (SITE_ID mixed_settings) (site_table mixed_world) (apps mixed_world)
        (apps (world_of (handle ex_ids mixed_settings mixed_world)))"
proof -
  have b: "map sites (apps (world_of (handle ex_ids mixed_settings mixed_world))) = [[7], [1], [1]]"
    by (simp add: mixed_run)
  have c: "handle ex_ids mixed_settings mixed_world
       = Done (world_of (handle ex_ids mixed_settings mixed_world))"
    by (simp add: mixed_run)
  from associated_sites_never_shrink[OF ex_ids_distinct mixed_world_facts(1),
      where st = mixed_settings
      and w' = "world_of (handle ex_ids mixed_settings mixed_world)"]
    ex_ids_distinct mixed_world_facts b c
  show ?thesis by blast
qed

text \<open>
  C1, for a run that completes. After it, every provider whose two settings are both set
  has exactly one record with its provider key, and the record carries the display name,
  client id and secret of the settings, whether it was created or updated by the run.
\<close>

theorem configured_provider_has_record:
  assumes "ids_distinct ids" and "pk_unique (apps w)"
    and "handle ids st w = Done w'"
    and "(nm, p, Some c, Some s) \<in> set (provider_blocks ids st)"
  shows "\<exists>a. rows_of p (apps w') = [a] \<and> name a = nm \<and> client_id a = c \<and> secret a = s"
  using run_blocks_done_record[OF assms(2) provider_blocks_distinct[OF assms(1)], of st "SITE_ID st" w' nm p c s]
    assms(3,4)
  by (auto simp: handle_run_blocks)

theorem configured_provider_has_record_witness:
  "ids_distinct ex_ids \<and> pk_unique (apps empty_world)
   \<and> handle ex_ids github_settings empty_world
       = Done (world_of (handle ex_ids github_settings empty_world))
   \<and> (''GitHub'', ''github'', Some ''abc'', Some ''def'')
        \<in> set (provider_blocks ex_ids github_settings)
   \<and> (\<exists>a. rows_of ''github'' (apps (world_of (handle ex_ids github_settings empty_world))) = [a]
          \<and> name a = ''GitHub'' \<and> client_id a = ''abc'' \<and> secret a = ''def'')"
proof -
  have d: "handle ex_ids github_settings empty_world
       = Done (world_of (handle ex_ids github_settings empty_world))"
    by (simp add: github_create_run)
  from configured_provider_has_record[OF ex_ids_distinct empty_world_pk_unique d github_block]
    ex_ids_distinct empty_world_pk_unique d github_block
  show ?thesis by blast
qed

text \<open>
  C1 does not hold of a run that raises: with the FxA and GitHub pairs set, an
  empty table and no default site, the run stops in the FxA call, and no GitHub record
  exists after it.
\<close>

theorem configured_provider_without_record_counterexample:
  "GITHUB_CLIENT_ID fxa_github_settings = Some ''abc''
   \<and> GITHUB_SECRET_KEY fxa_github_settings = Some ''def''
   \<and> handle ex_ids fxa_github_settings no_site_world =
       Raised SiteDoesNotExist
         \<lparr>apps = [\<lparr>pk = 1, name = ''FxA'', provider = ''fxa'', client_id = ''f1'',
            secret = ''f2'', sites = []\<rparr>], site_table = [],
          stdout = [''Created new authentication provider (pk=1)'']\<rparr>
   \<and> rows_of (GITHUB_PROVIDER_ID ex_ids)
        (apps (world_of (handle ex_ids fxa_github_settings no_site_world))) = []"
  by code_simp

text \<open>
  C10. Only \<open>None\<close> counts as absent. A block whose client id or secret is the empty
  string calls \<open>update_provider\<close>; when the table has at most one row of the provider key,
  the record of the key after the block stores the two values as they are, the empty
  string included; and so does the record after a run that completes.
\<close>

theorem empty_string_is_not_absent:
  assumes "pk_unique (apps w)" and "c = [] \<or> s = []"
  shows "sync_block nm p (Some c) (Some s) sid w =
           update_provider \<lparr>data_name = nm, data_provider = p, data_client_id = c,
                            data_secret = s\<rparr> sid w
    \<and> (length (rows_of p (apps w)) \<le> 1 \<longrightarrow>
         (\<exists>a. rows_of p (apps (world_of (sync_block nm p (Some c) (Some s) sid w))) = [a]
              \<and> client_id a = c \<and> secret a = s))
    \<and> (ids_distinct ids \<and> (nm, p, Some c, Some s) \<in> set (provider_blocks ids st)
         \<and> handle ids st w = Done w' \<longrightarrow>
         (\<exists>a. rows_of p (apps w') = [a] \<and> client_id a = c \<and> secret a = s))"
proof (intro conjI impI)
  show g: "sync_block nm p (Some c) (Some s) sid w =
           update_provider \<lparr>data_name = nm, data_provider = p, data_client_id = c,
                            data_secret = s\<rparr> sid w"
    by (simp add: sync_block_def)
  {
    assume "length (rows_of p (apps w)) \<le> 1"
    then have "rows_of p (apps w) = [] \<or> (\<exists>f. rows_of p (apps w) = [f])"
      by (rule rows_of_at_most_one)
    from update_provider_record[OF assms(1), of "\<lparr>data_name = nm, data_provider = p,
        data_client_id = c, data_secret = s\<rparr>" sid] this
    show "\<exists>a. rows_of p (apps (world_of (sync_block nm p (Some c) (Some s) sid w))) = [a]
              \<and> client_id a = c \<and> secret a = s"
      unfolding g by auto
  }
  {
    assume "ids_distinct ids \<and> (nm, p, Some c, Some s) \<in> set (provider_blocks ids st)
         \<and> handle ids st w = Done w'"
    then show "\<exists>a. rows_of p (apps w') = [a] \<and> client_id a = c \<and> secret a = s"
      using run_blocks_done_record[OF assms(1) provider_blocks_distinct, of ids st "SITE_ID st" w' nm p c s]
      by (auto simp: handle_run_blocks)
  }
qed

theorem empty_string_is_not_absent_witness:
  "pk_unique (apps empty_world)
   \<and> handle ex_ids blank_settings empty_world
       = Done (world_of (handle ex_ids blank_settings empty_world))
   \<and> GITHUB_CLIENT_ID blank_settings = Some []
   \<and> (\<exists>a. rows_of ''github'' (apps (world_of (handle ex_ids blank_settings empty_world))) = [a]
          \<and> client_id a = [] \<and> secret a = ''def'')"
proof -
  have d: "handle ex_ids blank_settings empty_world
       = Done (world_of (handle ex_ids blank_settings empty_world))"
    by (simp add: blank_run)
  have e: "GITHUB_CLIENT_ID blank_settings = Some []" by code_simp
  have f: "([] :: string) = [] \<or> ''def'' = []" by simp
  from empty_string_is_not_absent[OF empty_world_pk_unique f, where ids = ex_ids
      and st = blank_settings and nm = "''GitHub''" and p = "''github''"
      and w' = "world_of (handle ex_ids blank_settings empty_world)"]
    ex_ids_distinct blank_block d e empty_world_pk_unique
  show ?thesis by blast
qed

text \<open>
  C9. When the record of a provider is related to a site at the time of its call, the
  call completes whatever the site table holds, with the same result but for the site
  table: the default site is not looked up. So a run in which every provider that is
  synced has a record with a site completes for every site table, the empty one included.
\<close>

theorem no_site_lookup_when_attached:
  assumes "pk_unique (apps w)"
  shows "(has_site (data_provider d) (apps w) \<longrightarrow>
           (\<exists>w'. \<forall>t. update_provider d sid (w\<lparr>site_table := t\<rparr>) = Done (w'\<lparr>site_table := t\<rparr>)))
    \<and> (ids_distinct ids \<and> all_attached (provider_blocks ids st) (apps w) \<longrightarrow>
           (\<exists>w'. \<forall>t. handle ids st (w\<lparr>site_table := t\<rparr>) = Done (w'\<lparr>site_table := t\<rparr>)))"
  using update_provider_attached[OF assms, of d sid]
    run_blocks_attached[OF assms provider_blocks_distinct, of ids st "SITE_ID st"]
  by (simp add: handle_run_blocks)

theorem no_site_lookup_when_attached_witness:
  "pk_unique (apps attached_world) \<and> ids_distinct ex_ids
   \<and> all_attached (provider_blocks ex_ids gitlab_settings) (apps attached_world)
   \<and> SITE_ID gitlab_settings \<notin> set (site_table attached_world)
   \<and> has_site ''gitlab'' (apps attached_world)
   \<and> handle ex_ids gitlab_settings attached_world =
       Done \<lparr>apps = [\<lparr>pk = 4, name = ''GitLab'', provider = ''gitlab'', client_id = ''new'',
         secret = ''newer'', sites = [7]\<rparr>], site_table = [],
         stdout = [''Updated existing authentication provider (pk=4)'']\<rparr>
   \<and> (\<exists>w'. \<forall>t. handle ex_ids gitlab_settings (attached_world\<lparr>site_table := t\<rparr>)
                   = Done (w'\<lparr>site_table := t\<rparr>))"
proof -
  have h: "has_site ''gitlab'' (apps attached_world)" by code_simp
  from no_site_lookup_when_attached[OF attached_world_facts(1), where ids = ex_ids
      and st = gitlab_settings and sid = 1
      and d = "\<lparr>data_name = ''GitLab'', data_provider = ''gitlab'', data_client_id = ''new'',
               data_secret = ''newer''\<rparr>"]
    attached_world_facts ex_ids_distinct h attached_run
  show ?thesis by simp
qed

text \<open>
  C5. No site of the key \<open>SITE_ID\<close> exists, no provider key has two rows, and some
  provider with both settings set has no record or a record without a site. Then the run
  raises \<open>SiteDoesNotExist\<close>, at the first such provider in the order of the blocks: its
  record exists with the values of the settings and no site, its report line is the last
  line written, and the rows of the providers after it are as before the run.
\<close>

theorem missing_site_aborts_run:
  assumes "ids_distinct ids" and "pk_unique (apps w)"
    and "one_row_at_most (provider_blocks ids st) (apps w)"
    and "SITE_ID st \<notin> set (site_table w)"
    and "(nm0, p0, Some c0, Some s0) \<in> set (provider_blocks ids st)"
    and "lacks_site p0 (apps w)"
  shows "\<exists>pre nm p c s post w' a.
       provider_blocks ids st = pre @ (nm, p, Some c, Some s) # post
     \<and> all_attached pre (apps w) \<and> lacks_site p (apps w)
     \<and> handle ids st w = Raised SiteDoesNotExist w'
     \<and> rows_of p (apps w') = [a]
     \<and> name a = nm \<and> client_id a = c \<and> secret a = s \<and> sites a = []
     \<and> stdout w' \<noteq> []
     \<and> last (stdout w') =
          (if rows_of p (apps w) = [] then created_line (pk a) else updated_line (pk a))
     \<and> (\<forall>b\<in>set post. rows_of (block_key b) (apps w') = rows_of (block_key b) (apps w))"
proof -
  have "configured (nm0, p0, Some c0, Some s0)" "lacks_site (block_key (nm0, p0, Some c0, Some s0)) (apps w)"
    using assms(6) by simp_all
  from first_lacking_block[OF assms(3,5) this]
  obtain pre nm p c s post where d: "provider_blocks ids st = pre @ (nm, p, Some c, Some s) # post"
    "all_attached pre (apps w)" "lacks_site p (apps w)" by blast
  have "distinct (map block_key (pre @ (nm, p, Some c, Some s) # post))"
    using provider_blocks_distinct[OF assms(1), of st] d(1) by simp
  from run_blocks_raise_at[OF assms(2) this d(2,3) assms(4)] d
  show ?thesis unfolding handle_run_blocks by metis
qed

theorem missing_site_aborts_run_witness:
  "ids_distinct ex_ids \<and> pk_unique (apps no_site_world)
   \<and> one_row_at_most (provider_blocks ex_ids fxa_github_settings) (apps no_site_world)
   \<and> SITE_ID fxa_github_settings \<notin> set (site_table no_site_world)
   \<and> (''GitHub'', ''github'', Some ''abc'', Some ''def'')
        \<in> set (provider_blocks ex_ids fxa_github_settings)
   \<and> lacks_site ''github'' (apps no_site_world)
   \<and> handle ex_ids fxa_github_settings no_site_world =
       Raised SiteDoesNotExist
         \<lparr>apps = [\<lparr>pk = 1, name = ''FxA'', provider = ''fxa'', client_id = ''f1'',
            secret = ''f2'', sites = []\<rparr>], site_table = [],
          stdout = [''Created new authentication provider (pk=1)'']\<rparr>
   \<and> (\<exists>w'. handle ex_ids fxa_github_settings no_site_world = Raised SiteDoesNotExist w'
          \<and> stdout w' \<noteq> [])"
proof -
  from missing_site_aborts_run[OF ex_ids_distinct no_site_world_facts]
  have "\<exists>w'. handle ex_ids fxa_github_settings no_site_world = Raised SiteDoesNotExist w'
          \<and> stdout w' \<noteq> []" by blast
  with ex_ids_distinct no_site_world_facts fxa_github_abort_run show ?thesis by simp
qed

text \<open>
  C7. The blocks run in the order FxA, GitHub, GitLab, Google, Keycloak, Discord, and the
  lines a run writes are, in this order, the lines of the first \<open>k\<close> providers that are
  synced: each line carries the primary key of the record of its provider, and when the
  run completes \<open>k\<close> is the number of providers that are synced.
\<close>

theorem report_lines_in_fixed_order:
  assumes "ids_distinct ids" and "pk_unique (apps w)"
  shows "map fst (provider_blocks ids st) =
           [''FxA'', ''GitHub'', ''GitLab'', ''Google'', ''Keycloak'', ''Discord'']
    \<and> (\<exists>k\<le>length (filter configured (provider_blocks ids st)).
          stdout (world_of (handle ids st w)) =
            stdout w @ map (report_line (apps w) (apps (world_of (handle ids st w))))
                         (take k (filter configured (provider_blocks ids st)))
        \<and> (\<forall>w'. handle ids st w = Done w' \<longrightarrow>
               k = length (filter configured (provider_blocks ids st))))"
proof
  show "map fst (provider_blocks ids st) =
           [''FxA'', ''GitHub'', ''GitLab'', ''Google'', ''Keycloak'', ''Discord'']"
    by (simp add: provider_blocks_def)
  show "\<exists>k\<le>length (filter configured (provider_blocks ids st)).
          stdout (world_of (handle ids st w)) =
            stdout w @ map (report_line (apps w) (apps (world_of (handle ids st w))))
                         (take k (filter configured (provider_blocks ids st)))
        \<and> (\<forall>w'. handle ids st w = Done w' \<longrightarrow>
               k = length (filter configured (provider_blocks ids st)))"
    unfolding handle_run_blocks
    by (rule run_blocks_stdout[OF assms(2) provider_blocks_distinct[OF assms(1)]])
qed

theorem report_lines_in_fixed_order_witness:
  "ids_distinct ex_ids \<and> pk_unique (apps discord_world)
   \<and> map fst (filter configured (provider_blocks ex_ids github_discord_settings))
       = [''GitHub'', ''Discord'']
   \<and> stdout (world_of (handle ex_ids github_discord_settings discord_world)) =
       [''Created new authentication provider (pk=2)'',
        ''Updated existing authentication provider (pk=1)'']
   \<and> (\<exists>k\<le>length (filter configured (provider_blocks ex_ids github_discord_settings)).
          stdout (world_of (handle ex_ids github_discord_settings discord_world)) =
            stdout discord_world @
              map (report_line (apps discord_world)
                     (apps (world_of (handle ex_ids github_discord_settings discord_world))))
                (take k (filter configured (provider_blocks ex_ids github_discord_settings))))"
proof -
  have a: "map fst (filter configured (provider_blocks ex_ids github_discord_settings))
       = [''GitHub'', ''Discord'']" by code_simp
  have b: "stdout (world_of (handle ex_ids github_discord_settings discord_world)) =
       [''Created new authentication provider (pk=2)'',
        ''Updated existing authentication provider (pk=1)'']"
    by (simp add: github_discord_run)
  from report_lines_in_fixed_order[OF ex_ids_distinct discord_world_pk_unique,
      of github_discord_settings]
  have "\<exists>k\<le>length (filter configured (provider_blocks ex_ids github_discord_settings)).
          stdout (world_of (handle ex_ids github_discord_settings discord_world)) =
            stdout discord_world @
              map (report_line (apps discord_world)
                     (apps (world_of (handle ex_ids github_discord_settings discord_world))))
                (take k (filter configured (provider_blocks ex_ids github_discord_settings)))"
    by blast
  with ex_ids_distinct discord_world_pk_unique a b show ?thesis by blast
qed

text \<open>
  C8. One line for each provider that is synced, none for one that is skipped. A skipped
  block leaves the world as it is. A call of \<open>update_provider\<close> that finds the row of the
  provider key writes \<open>Updated existing authentication provider (pk=<id>)\<close> with the primary
  key of that row, which the record keeps; a call that finds no row writes
  \<open>Created new authentication provider (pk=<id>)\<close> with the primary key of the new record,
  a key no row had; a call that finds two rows or more raises and writes nothing. A run that
  completes has written as many lines as providers are synced.
\<close>

theorem one_report_line_per_synced_provider:
  assumes "pk_unique (apps w)"
  shows "(cid = None \<or> sec = None \<longrightarrow> sync_block nm p cid sec sid w = Done w)
    \<and> (rows_of (data_provider d) (apps w) = [found] \<longrightarrow>
         stdout (world_of (update_provider d sid w)) = stdout w @
           [''Updated existing authentication provider (pk='' @ show_nat (pk found) @ '')'']
         \<and> (\<exists>a. rows_of (data_provider d) (apps (world_of (update_provider d sid w))) = [a]
                \<and> pk a = pk found))
    \<and> (rows_of (data_provider d) (apps w) = [] \<longrightarrow>
         (\<exists>a. rows_of (data_provider d) (apps (world_of (update_provider d sid w))) = [a]
              \<and> pk a \<notin> pk ` set (apps w)
              \<and> stdout (world_of (update_provider d sid w)) = stdout w @
                  [''Created new authentication provider (pk='' @ show_nat (pk a) @ '')'']))
    \<and> (2 \<le> length (rows_of (data_provider d) (apps w)) \<longrightarrow>
         update_provider d sid w = Raised SocialAppMultipleObjectsReturned w)
    \<and> (ids_distinct ids \<and> handle ids st w = Done w' \<longrightarrow>
         length (stdout w') =
           length (stdout w) + length (filter configured (provider_blocks ids st)))"
proof (intro conjI impI)
  assume "cid = None \<or> sec = None"
  then show "sync_block nm p cid sec sid w = Done w" by (auto simp: sync_block_def)
next
  assume f: "rows_of (data_provider d) (apps w) = [found]"
  then obtain xs ys where s: "apps w = xs @ found # ys"
    "\<forall>r\<in>set xs. provider r \<noteq> data_provider d" "\<forall>r\<in>set ys. provider r \<noteq> data_provider d"
    by (cases rule: rows_of_cases[of "data_provider d" "apps w"]) auto
  have e: "filter (\<lambda>r. provider r = data_provider d) xs = []"
     "filter (\<lambda>r. provider r = data_provider d) ys = []"
    using s(2,3) by (simp_all add: filter_empty_conv)
  show "stdout (world_of (update_provider d sid w)) = stdout w @
           [''Updated existing authentication provider (pk='' @ show_nat (pk found) @ '')'']"
    by (simp add: update_provider_one[OF assms s(1) f] updated_line_def)
  show "\<exists>a. rows_of (data_provider d) (apps (world_of (update_provider d sid w))) = [a]
                \<and> pk a = pk found"
    using e by (simp add: update_provider_one[OF assms s(1) f] rows_of_def setattr_items_def)
next
  assume n: "rows_of (data_provider d) (apps w) = []"
  then have e: "filter (\<lambda>r. provider r = data_provider d) (apps w) = []"
    by (simp add: rows_of_def)
  have "fresh_pk (apps w) \<notin> pk ` set (apps w)"
    using fresh_pk_gt by fastforce
  then show "\<exists>a. rows_of (data_provider d) (apps (world_of (update_provider d sid w))) = [a]
              \<and> pk a \<notin> pk ` set (apps w)
              \<and> stdout (world_of (update_provider d sid w)) = stdout w @
                  [''Created new authentication provider (pk='' @ show_nat (pk a) @ '')'']"
    using e by (simp add: update_provider_none[OF n] rows_of_def save_new_def created_line_def)
next
  assume "2 \<le> length (rows_of (data_provider d) (apps w))"
  then obtain a b cs where "rows_of (data_provider d) (apps w) = a # b # cs"
    by (cases "rows_of (data_provider d) (apps w)" rule: remdups_adj.cases) auto
  then show "update_provider d sid w = Raised SocialAppMultipleObjectsReturned w"
    by (rule update_provider_many)
next
  assume "ids_distinct ids \<and> handle ids st w = Done w'"
  then show "length (stdout w') =
           length (stdout w) + length (filter configured (provider_blocks ids st))"
    using run_blocks_line_count[OF assms provider_blocks_distinct, of ids st "SITE_ID st" w']
    by (simp add: handle_run_blocks)
qed

theorem one_report_line_per_synced_provider_witness:
  "pk_unique (apps discord_world)
   \<and> rows_of ''discord'' (apps discord_world) = [discord_row]
   \<and> stdout (world_of (update_provider
        \<lparr>data_name = ''Discord'', data_provider = ''discord'', data_client_id = ''x2'',
         data_secret = ''y2''\<rparr> 1 discord_world))
       = stdout discord_world @ [''Updated existing authentication provider (pk=1)'']
   \<and> rows_of ''github'' (apps discord_world) = []
   \<and> stdout (world_of (update_provider
        \<lparr>data_name = ''GitHub'', data_provider = ''github'', data_client_id = ''abc'',
         data_secret = ''def''\<rparr> 1 discord_world))
       = stdout discord_world @ [''Created new authentication provider (pk=2)'']
   \<and> sync_block ''FxA'' ''fxa'' None None 1 discord_world = Done discord_world
   \<and> pk_unique (apps dup_world) \<and> 2 \<le> length (rows_of ''github'' (apps dup_world))
   \<and> update_provider
        \<lparr>data_name = ''GitHub'', data_provider = ''github'', data_client_id = ''abc'',
         data_secret = ''def''\<rparr> 1 dup_world
       = Raised SocialAppMultipleObjectsReturned dup_world
   \<and> ids_distinct ex_ids
   \<and> handle ex_ids github_discord_settings discord_world
       = Done (world_of (handle ex_ids github_discord_settings discord_world))
   \<and> length (stdout (world_of (handle ex_ids github_discord_settings discord_world)))
       = length (stdout discord_world)
         + length (filter configured (provider_blocks ex_ids github_discord_settings))"
proof -
  let ?dd = "\<lparr>data_name = ''Discord'', data_provider = ''discord'', data_client_id = ''x2'',
         data_secret = ''y2''\<rparr>"
  let ?dg = "\<lparr>data_name = ''GitHub'', data_provider = ''github'', data_client_id = ''abc'',
         data_secret = ''def''\<rparr>"
  have d: "handle ex_ids github_discord_settings discord_world
       = Done (world_of (handle ex_ids github_discord_settings discord_world))"
    by (simp add: github_discord_run)
  have s: "show_nat 1 = ''1''" "show_nat 2 = ''2''" by code_simp+
  have c: "stdout (world_of (update_provider ?dg 1 discord_world))
       = stdout discord_world @ [''Created new authentication provider (pk=2)'']"
    by code_simp
  note a = one_report_line_per_synced_provider[OF discord_world_pk_unique,
      where d = ?dd and found = discord_row and cid = None and sec = None and nm = "''FxA''"
        and p = "''fxa''" and sid = 1 and ids = ex_ids and st = github_discord_settings
        and w' = "world_of (handle ex_ids github_discord_settings discord_world)"]
  note b = one_report_line_per_synced_provider[OF dup_world_facts(1),
      where d = ?dg and sid = 1]
  from a b discord_world_facts dup_world_facts discord_world_pk_unique ex_ids_distinct d s c
  show ?thesis by simp
qed

text \<open>
  C3. A second run with the same settings leaves the table as the first run
  left it, whether the runs complete or raise, and every line it writes is an
  \<open>Updated\<close> line. When the first run completes, so does the second, and it writes one
  \<open>Updated\<close> line for each provider that is synced, in the order of the blocks, with the
  primary key of the record of that provider.
\<close>

theorem sync_twice_same_records:
  assumes "ids_distinct ids" and "pk_unique (apps w)"
  shows "apps (world_of (handle ids st (world_of (handle ids st w))))
           = apps (world_of (handle ids st w))
    \<and> (\<exists>ks. stdout (world_of (handle ids st (world_of (handle ids st w))))
               = stdout (world_of (handle ids st w)) @ map updated_line ks)
    \<and> (\<forall>w1. handle ids st w = Done w1 \<longrightarrow>
          (\<exists>w2. handle ids st w1 = Done w2 \<and> apps w2 = apps w1
             \<and> stdout w2 = stdout w1 @ map (report_line (apps w1) (apps w1))
                                          (filter configured (provider_blocks ids st))
             \<and> list_all (\<lambda>b. \<exists>a. rows_of (block_key b) (apps w1) = [a]
                              \<and> report_line (apps w1) (apps w1) b = updated_line (pk a))
                  (filter configured (provider_blocks ids st))))"
proof -
  let ?bs = "provider_blocks ids st" and ?sid = "SITE_ID st"
  let ?w1 = "world_of (run_blocks ?bs ?sid w)"
  have dk: "distinct (map block_key ?bs)" by (rule provider_blocks_distinct[OF assms(1)])
  have st1: "site_table ?w1 = site_table w" by (rule run_blocks_site_table[OF assms(2)])
  have u1: "pk_unique (apps ?w1)" by (rule run_blocks_pk_unique[OF assms(2)])
  note tw = run_blocks_twice[OF assms(2) dk refl st1]
  have 1: "apps (world_of (run_blocks ?bs ?sid ?w1)) = apps ?w1" using tw by blast
  have 2: "\<exists>ks. stdout (world_of (run_blocks ?bs ?sid ?w1)) = stdout ?w1 @ map updated_line ks"
    using tw by blast
  have 3: "\<exists>w2. run_blocks ?bs ?sid w1 = Done w2 \<and> apps w2 = apps w1
             \<and> stdout w2 = stdout w1 @ map (report_line (apps w1) (apps w1)) (filter configured ?bs)
             \<and> list_all (\<lambda>b. \<exists>a. rows_of (block_key b) (apps w1) = [a]
                              \<and> report_line (apps w1) (apps w1) b = updated_line (pk a))
                  (filter configured ?bs)"
    if d1: "run_blocks ?bs ?sid w = Done w1" for w1
  proof -
    have e: "?w1 = w1" using d1 by simp
    obtain w2 where w2: "run_blocks ?bs ?sid w1 = Done w2" using tw d1 e by auto
    have a2: "apps w2 = apps w1" using 1 w2 e by simp
    from run_blocks_stdout[OF u1 dk, of ?sid] w2 e
    have s2: "stdout w2 = stdout w1 @ map (report_line (apps w1) (apps w1)) (filter configured ?bs)"
      using a2 by auto
    have "list_all (\<lambda>b. \<exists>a. rows_of (block_key b) (apps w1) = [a]
                              \<and> report_line (apps w1) (apps w1) b = updated_line (pk a))
                  (filter configured ?bs)"
      unfolding list_all_iff
    proof
      fix b assume "b \<in> set (filter configured ?bs)"
      then have m: "b \<in> set ?bs" and cb: "configured b"
        unfolding set_filter by blast+
      obtain nm p c s where b0: "b = (nm, p, Some c, Some s)"
        using cb by (cases b) auto
      have b: "b = (nm, p, Some c, Some s)" "(nm, p, Some c, Some s) \<in> set ?bs"
        using b0 m by simp_all
      from run_blocks_done_record[OF assms(2) dk d1, of nm p c s] b
      obtain a where "rows_of p (apps w1) = [a]" by auto
      then show "\<exists>a. rows_of (block_key b) (apps w1) = [a]
                    \<and> report_line (apps w1) (apps w1) b = updated_line (pk a)"
        by (simp add: b(1))
    qed
    with w2 a2 s2 show ?thesis by blast
  qed
  from 1 2 3 show ?thesis unfolding handle_run_blocks by blast
qed

theorem sync_twice_same_records_witness:
  "ids_distinct ex_ids \<and> pk_unique (apps empty_world)
   \<and> handle ex_ids github_settings empty_world
       = Done (world_of (handle ex_ids github_settings empty_world))
   \<and> handle ex_ids github_settings (world_of (handle ex_ids github_settings empty_world)) =
       Done \<lparr>apps = [\<lparr>pk = 1, name = ''GitHub'', provider = ''github'', client_id = ''abc'',
         secret = ''def'', sites = [1]\<rparr>], site_table = [1],
         stdout = [''Created new authentication provider (pk=1)'',
                   ''Updated existing authentication provider (pk=1)'']\<rparr>
   \<and> apps (world_of (handle ex_ids github_settings
                         (world_of (handle ex_ids github_settings empty_world))))
       = apps (world_of (handle ex_ids github_settings empty_world))"
proof -
  have d: "handle ex_ids github_settings empty_world
       = Done (world_of (handle ex_ids github_settings empty_world))"
    by (simp add: github_create_run)
  from sync_twice_same_records[OF ex_ids_distinct empty_world_pk_unique, of github_settings]
  have "apps (world_of (handle ex_ids github_settings
                         (world_of (handle ex_ids github_settings empty_world))))
       = apps (world_of (handle ex_ids github_settings empty_world))" by blast
  with ex_ids_distinct empty_world_pk_unique d github_second_run show ?thesis by simp
qed

text \<open>
  C3 does not extend to the providers that a raising run never reaches: with the FxA and
  GitHub pairs set, an empty table and no default site, the second run writes one line,
  for the FxA record, and raises; the GitHub provider, whose settings are set, is not
  reported.
\<close>

theorem second_run_reports_less_counterexample:
  "GITHUB_CLIENT_ID fxa_github_settings = Some ''abc''
   \<and> GITHUB_SECRET_KEY fxa_github_settings = Some ''def''
   \<and> handle ex_ids fxa_github_settings
        (world_of (handle ex_ids fxa_github_settings no_site_world)) =
       Raised SiteDoesNotExist
         \<lparr>apps = [\<lparr>pk = 1, name = ''FxA'', provider = ''fxa'', client_id = ''f1'',
            secret = ''f2'', sites = []\<rparr>], site_table = [],
          stdout = [''Created new authentication provider (pk=1)'',
                    ''Updated existing authentication provider (pk=1)'']\<rparr>"
  by code_simp

end
